theory Spec2Isabelle
  imports Main "HOL-Library.List_Lexorder"
begin

section \<open>HipChat notification module of jenkins-job-builder\<close>

text \<open>
  The development embeds \<^verbatim>\<open>jenkins_jobs/modules/hipchat_notif.py\<close>: the class
  \<^verbatim>\<open>HipChat\<close> with its lazy credential loader \<^verbatim>\<open>_load_global_data\<close> and its translator
  \<^verbatim>\<open>gen_xml\<close>. Mutation of the instance and of the ElementTree document is explicit
  state passing; every raise and the call of \<^verbatim>\<open>sys.exit\<close> is an outcome value, returned
  together with the state reached at that point, so that what was mutated before a
  failure stays visible.
\<close>

subsection \<open>Python values used by the module\<close>

text \<open>\<^verbatim>\<open>",".join(xs)\<close> for a list of strings.\<close>

fun join :: "string \<Rightarrow> string list \<Rightarrow> string" where
  "join sep [] = []"
| "join sep [x] = x"
| "join sep (x # y # ys) = x @ sep @ join sep (y # ys)"

text \<open>\<^verbatim>\<open>str(b)\<close> for a bool, and \<^verbatim>\<open>s.lower()\<close> on ASCII text.\<close>

definition str_bool :: "bool \<Rightarrow> string" where
  "str_bool b = (if b then ''True'' else ''False'')"

definition lower_char :: "char \<Rightarrow> char" where
  "lower_char c =
     (if (65::nat) \<le> of_char c \<and> of_char c \<le> (90::nat)
      then char_of (of_char c + (32::nat)) else c)"

definition lower :: "string \<Rightarrow> string" where
  "lower s = map lower_char s"

subsection \<open>The job's hipchat mapping\<close>

text \<open>
  The value of \<^verbatim>\<open>data.get('hipchat')\<close>. Each key holds a value of the type the module's
  docstring gives it: \<^verbatim>\<open>enabled\<close> a bool, \<^verbatim>\<open>room\<close> a string, \<^verbatim>\<open>rooms\<close> a list of
  strings, and every other key (the seven notification flags among them) a bool, kept as
  an association list in \<open>flags\<close>; the three keys with a field of their own are not
  keys of \<open>flags\<close>. A field that is \<open>None\<close> is a key the mapping does not have.
\<close>

record hipchat_cfg =
  enabled :: "bool option"
  room :: "string option"
  rooms :: "string list option"
  flags :: "(string \<times> bool) list"

text \<open>\<^verbatim>\<open>not hipchat\<close>: a dict is falsy exactly when it has no key.\<close>

definition is_empty :: "hipchat_cfg \<Rightarrow> bool" where
  "is_empty h = (enabled h = None \<and> room h = None \<and> rooms h = None \<and> flags h = [])"

text \<open>\<^verbatim>\<open>hipchat.get('enabled', True)\<close>.\<close>

definition get_enabled :: "hipchat_cfg \<Rightarrow> bool" where
  "get_enabled h = (case enabled h of None \<Rightarrow> True | Some b \<Rightarrow> b)"

text \<open>\<^verbatim>\<open>hipchat.get(source)\<close> for a flag key; \<open>None\<close> is Python's \<^verbatim>\<open>None\<close>.\<close>

definition get_flag :: "hipchat_cfg \<Rightarrow> string \<Rightarrow> bool option" where
  "get_flag h source = map_of (flags h) source"

text \<open>Truth value of \<^verbatim>\<open>hipchat.get(source)\<close>: \<^verbatim>\<open>None\<close> and \<^verbatim>\<open>False\<close> are falsy.\<close>

definition truthy :: "bool option \<Rightarrow> bool" where
  "truthy v = (case v of None \<Rightarrow> False | Some b \<Rightarrow> b)"

text \<open>\<^verbatim>\<open>hipchat.get(source, False)\<close>.\<close>

definition get_flag_default :: "hipchat_cfg \<Rightarrow> string \<Rightarrow> bool" where
  "get_flag_default h source = (case map_of (flags h) source of None \<Rightarrow> False | Some b \<Rightarrow> b)"

subsection \<open>Exceptions, outcomes and observable events\<close>

datatype exc =
    NoSectionError string
  | NoOptionError string string
  | JenkinsJobsException string
  | YAMLFormatError string
  | AttributeError string

text \<open>\<^verbatim>\<open>str(e)\<close>, as used by the fatal log message.\<close>

fun exc_str :: "exc \<Rightarrow> string" where
  "exc_str (NoSectionError sec) = ''No section: '' @ [CHR 0x27] @ sec @ [CHR 0x27]"
| "exc_str (NoOptionError opt sec) =
     ''No option '' @ [CHR 0x27] @ opt @ [CHR 0x27] @ '' in section: '' @ [CHR 0x27] @ sec @ [CHR 0x27]"
| "exc_str (JenkinsJobsException msg) = msg"
| "exc_str (YAMLFormatError msg) = msg"
| "exc_str (AttributeError msg) = msg"

text \<open>
  How a call ends: it returns, it raises an exception that propagates to the caller, or
  the process is terminated by \<^verbatim>\<open>sys.exit(code)\<close>.
\<close>

datatype outcome = Returned | Raised exc | Exited nat

text \<open>
  What the module does to its environment besides the document: reads of the global
  configuration store, log records, and the plugin-metadata query.
\<close>

datatype event =
    ConfigGet string string
  | LogFatal string
  | LogWarn string
  | GetPluginInfo string

subsection \<open>The global configuration store and the registry\<close>

text \<open>
  \<^verbatim>\<open>registry.global_config\<close> is a ConfigParser: sections of options.
  \<^verbatim>\<open>get(section, option)\<close> raises \<^verbatim>\<open>NoSectionError\<close> for an unknown section and
  \<^verbatim>\<open>NoOptionError\<close> for an unknown option of a known section.
\<close>

type_synonym config = "(string \<times> (string \<times> string) list) list"

definition config_get :: "config \<Rightarrow> string \<Rightarrow> string \<Rightarrow> exc + string" where
  "config_get cfg sec opt =
     (case map_of cfg sec of
        None \<Rightarrow> Inl (NoSectionError sec)
      | Some opts \<Rightarrow>
          (case map_of opts opt of
             None \<Rightarrow> Inl (NoOptionError opt sec)
           | Some v \<Rightarrow> Inr v))"

text \<open>
  The registry object handed to the constructor. \<^verbatim>\<open>get_plugin_info\<close> is defined outside
  this module; it is taken as given: a function from a plugin's name to its info
  mapping.
\<close>

record registry =
  global_config :: config
  get_plugin_info :: "string \<Rightarrow> (string \<times> string) list"

subsection \<open>ElementTree documents\<close>

text \<open>
  An element has a tag, a text (\<open>None\<close> until assigned) and children in order.
\<close>

datatype xml = Element (etag: string) (etext: "string option") (echildren: "xml list")

text \<open>
  The module holds references to elements inside the tree of \<^verbatim>\<open>xml_parent\<close> and mutates
  through them. A reference is the list of child indices leading from \<^verbatim>\<open>xml_parent\<close> to
  the element; the module only ever appends children, so indices stay valid.
\<close>

type_synonym ref = "nat list"

fun node_at :: "xml \<Rightarrow> ref \<Rightarrow> xml option" where
  "node_at e [] = Some e"
| "node_at e (i # p) =
     (if i < length (echildren e) then node_at (echildren e ! i) p else None)"

fun modify :: "ref \<Rightarrow> (xml \<Rightarrow> xml) \<Rightarrow> xml \<Rightarrow> xml" where
  "modify [] f e = f e"
| "modify (i # p) f e =
     (if i < length (echildren e)
      then Element (etag e) (etext e) ((echildren e)[i := modify p f (echildren e ! i)])
      else e)"

text \<open>Index of the first element of a list with the given tag.\<close>

fun find_idx :: "string \<Rightarrow> xml list \<Rightarrow> nat option" where
  "find_idx t [] = None"
| "find_idx t (k # ks) =
     (if etag k = t then Some 0 else map_option Suc (find_idx t ks))"

text \<open>\<^verbatim>\<open>element.find(tag)\<close>: the first direct child with that tag, or \<^verbatim>\<open>None\<close>.\<close>

definition find_child :: "xml \<Rightarrow> ref \<Rightarrow> string \<Rightarrow> ref option" where
  "find_child d r t =
     (case node_at d r of
        None \<Rightarrow> None
      | Some e \<Rightarrow> map_option (\<lambda>i. r @ [i]) (find_idx t (echildren e)))"

text \<open>
  \<^verbatim>\<open>XML.SubElement(parent, tag)\<close>: a new element with no text and no children is
  appended to the parent; the result is the document and the reference to the new
  element.
\<close>

definition num_children :: "xml \<Rightarrow> ref \<Rightarrow> nat" where
  "num_children d r = (case node_at d r of None \<Rightarrow> 0 | Some e \<Rightarrow> length (echildren e))"

definition append_child :: "xml \<Rightarrow> xml \<Rightarrow> xml" where
  "append_child n e = Element (etag e) (etext e) (echildren e @ [n])"

definition SubElement :: "xml \<Rightarrow> ref \<Rightarrow> string \<Rightarrow> xml \<times> ref" where
  "SubElement d parent t =
     (modify parent (append_child (Element t None [])) d, parent @ [num_children d parent])"

text \<open>\<^verbatim>\<open>element.text = v\<close> and \<^verbatim>\<open>element.text\<close>.\<close>

definition set_text :: "xml \<Rightarrow> ref \<Rightarrow> string option \<Rightarrow> xml" where
  "set_text d r v = modify r (\<lambda>e. Element (etag e) v (echildren e)) d"

definition get_text :: "xml \<Rightarrow> ref \<Rightarrow> string option" where
  "get_text d r = (case node_at d r of None \<Rightarrow> None | Some e \<Rightarrow> etext e)"

text \<open>The statement \<^verbatim>\<open>XML.SubElement(parent, tag).text = v\<close>.\<close>

definition SubElement_text :: "xml \<Rightarrow> ref \<Rightarrow> string \<Rightarrow> string option \<Rightarrow> xml" where
  "SubElement_text d parent t v = (let (d1, e) = SubElement d parent t in set_text d1 e v)"

subsection \<open>The state\<close>

text \<open>
  The three attributes of the \<^verbatim>\<open>HipChat\<close> instance (\<open>sendAs = None\<close>: the attribute has
  not been set, the constructor does not set it), the document rooted at
  \<^verbatim>\<open>xml_parent\<close>, and the events so far.
\<close>

record state =
  authToken :: "string option"
  jenkinsUrl :: "string option"
  sendAs :: "string option"
  doc :: xml
  trace :: "event list"

text \<open>\<^verbatim>\<open>HipChat.__init__\<close>.\<close>

definition init :: "xml \<Rightarrow> state" where
  "init d = \<lparr>authToken = None, jenkinsUrl = None, sendAs = None, doc = d, trace = []\<rparr>"

definition emit :: "event \<Rightarrow> state \<Rightarrow> state" where
  "emit ev s = s\<lparr>trace := trace s @ [ev]\<rparr>"

subsection \<open>\<^verbatim>\<open>_load_global_data\<close>\<close>

definition fatal_message :: "exc \<Rightarrow> string" where
  "fatal_message e =
     ''The configuration file needs a hipchat section containing authtoken:''
       @ [CHR 0x0A] @ exc_str e"

text \<open>
  The \<^verbatim>\<open>except\<close> clause: \<^verbatim>\<open>NoSectionError\<close> and \<^verbatim>\<open>JenkinsJobsException\<close> are caught,
  logged as fatal and answered by \<^verbatim>\<open>sys.exit(1)\<close>; any other exception propagates. Of
  the exceptions the \<^verbatim>\<open>try\<close> block can raise, the last equation is reached by
  \<^verbatim>\<open>NoOptionError\<close> only.
\<close>

fun handle_load_error :: "exc \<Rightarrow> state \<Rightarrow> outcome \<times> state" where
  "handle_load_error (NoSectionError sec) s =
     (Exited 1, emit (LogFatal (fatal_message (NoSectionError sec))) s)"
| "handle_load_error (JenkinsJobsException msg) s =
     (Exited 1, emit (LogFatal (fatal_message (JenkinsJobsException msg))) s)"
| "handle_load_error e s = (Raised e, s)"

definition load_global_data :: "registry \<Rightarrow> state \<Rightarrow> outcome \<times> state" where
  "load_global_data reg s =
     (if authToken s = None \<or> authToken s = Some []
      then
        (let s1 = emit (ConfigGet ''hipchat'' ''authtoken'') s in
         case config_get (global_config reg) ''hipchat'' ''authtoken'' of
           Inl e \<Rightarrow> handle_load_error e s1
         | Inr tok \<Rightarrow>
             (let s2 = s1\<lparr>authToken := Some tok\<rparr> in
              if tok = []
              then handle_load_error
                     (JenkinsJobsException ''Hipchat authtoken must not be a blank string'') s2
              else
                (let s3 = emit (ConfigGet ''jenkins'' ''url'') s2 in
                 case config_get (global_config reg) ''jenkins'' ''url'' of
                   Inl e \<Rightarrow> (Raised e, s3)
                 | Inr url \<Rightarrow>
                     (let s4 = emit (ConfigGet ''hipchat'' ''send-as'') (s3\<lparr>jenkinsUrl := Some url\<rparr>) in
                      case config_get (global_config reg) ''hipchat'' ''send-as'' of
                        Inl e \<Rightarrow> (Raised e, s4)
                      | Inr sa \<Rightarrow> (Returned, s4\<lparr>sendAs := Some sa\<rparr>)))))
      else (Returned, s))"

subsection \<open>\<^verbatim>\<open>gen_xml\<close>\<close>

definition quoted :: "string \<Rightarrow> string" where
  "quoted s = [CHR 0x27] @ s @ [CHR 0x27]"

abbreviation job_property_tag :: string where
  "job_property_tag \<equiv> ''jenkins.plugins.hipchat.HipChatNotifier_-HipChatJobProperty''"

abbreviation notifier_tag :: string where
  "notifier_tag \<equiv> ''jenkins.plugins.hipchat.HipChatNotifier''"

text \<open>
  The pattern of lines 110-112 and 127-129:
  \<^verbatim>\<open>x = xml_parent.find(t)\<close>, and \<^verbatim>\<open>x = XML.SubElement(xml_parent, t)\<close> if that is
  \<^verbatim>\<open>None\<close>.
\<close>

definition find_or_create :: "xml \<Rightarrow> string \<Rightarrow> xml \<times> ref" where
  "find_or_create d t =
     (case find_child d [] t of
        Some r \<Rightarrow> (d, r)
      | None \<Rightarrow> SubElement d [] t)"

text \<open>
  Lines 118-125: the text of the \<^verbatim>\<open>room\<close> element, from \<^verbatim>\<open>rooms\<close> if the mapping has
  that key, else from \<^verbatim>\<open>room\<close> with a deprecation warning, else the format error.
\<close>

definition set_room :: "hipchat_cfg \<Rightarrow> ref \<Rightarrow> state \<Rightarrow> outcome \<times> state" where
  "set_room hipchat room_ref s =
     (case rooms hipchat of
        Some rs \<Rightarrow> (Returned, s\<lparr>doc := set_text (doc s) room_ref (Some (join '','' rs))\<rparr>)
      | None \<Rightarrow>
          (case room hipchat of
             Some r \<Rightarrow>
               (let s1 = emit (LogWarn (quoted ''room'' @ '' is deprecated, please use '' @ quoted ''rooms'')) s
                in (Returned, s1\<lparr>doc := set_text (doc s1) room_ref (Some r)\<rparr>))
           | None \<Rightarrow>
               (Raised (YAMLFormatError
                  (''Must specify either '' @ quoted ''room'' @ '' or '' @ quoted ''rooms''
                     @ '' in hipchat config.'')), s)))"

text \<open>The local function \<^verbatim>\<open>translate_to_xml\<close>; it closes over \<^verbatim>\<open>hipchat\<close>.\<close>

definition translate_to_xml ::
  "hipchat_cfg \<Rightarrow> xml \<Rightarrow> ref \<Rightarrow> string \<Rightarrow> string \<Rightarrow> bool \<Rightarrow> xml" where
  "translate_to_xml hipchat d parent source target optional =
     (if \<not> optional \<or> truthy (get_flag hipchat source)
      then SubElement_text d parent target
             (Some (lower (str_bool (get_flag_default hipchat source))))
      else d)"

text \<open>
  The dict \<^verbatim>\<open>yaml2xmlkeys\<close>, in the order the literal lists its keys, which is the
  order \<^verbatim>\<open>items()\<close> gives since Python 3.7: source key, target field, and the second
  component of the tuple, which the loop passes as \<^verbatim>\<open>optional\<close>. The theorems below
  read fields by their tags and do not depend on this order.
\<close>

definition yaml2xmlkeys :: "(string \<times> string \<times> bool) list" where
  "yaml2xmlkeys =
     [(''start-notify'', ''startNotification'', False),
      (''notify-success'', ''notifySuccess'', True),
      (''notify-aborted'', ''notifyAborted'', True),
      (''notify-not-built'', ''notifyNotBuilt'', True),
      (''notify-unstable'', ''notifyUnstable'', True),
      (''notify-failure'', ''notifyFailure'', True),
      (''notify-back-to-normal'', ''notifyBackToNormal'', True)]"

text \<open>Lines 149-153: the loop over the two parents and, inside, over the keys.\<close>

definition write_flags :: "hipchat_cfg \<Rightarrow> xml \<Rightarrow> ref list \<Rightarrow> xml" where
  "write_flags hipchat d parents =
     foldl (\<lambda>d1 xmlparent.
        foldl (\<lambda>d2 (yamlkey, xmlkey, xmloptional).
           translate_to_xml hipchat d2 xmlparent yamlkey xmlkey xmloptional) d1 yaml2xmlkeys)
       d parents"

text \<open>
  Lines 158-162, given the result of the version comparison. Python evaluates the right
  side of an assignment first: with \<^verbatim>\<open>sendAs\<close> unset the \<^verbatim>\<open>AttributeError\<close> is raised
  after \<^verbatim>\<open>buildServerUrl\<close> has been written and before a \<^verbatim>\<open>sendAs\<close> element exists.
\<close>

definition write_urls :: "bool \<Rightarrow> ref \<Rightarrow> state \<Rightarrow> outcome \<times> state" where
  "write_urls at_least_baseline hippub s =
     (if at_least_baseline
      then
        (let s1 = s\<lparr>doc := SubElement_text (doc s) hippub ''buildServerUrl'' (jenkinsUrl s)\<rparr>
         in case sendAs s1 of
              None \<Rightarrow>
                (Raised (AttributeError
                   (quoted ''HipChat'' @ '' object has no attribute '' @ quoted ''sendAs'')), s1)
            | Some sa \<Rightarrow>
                (Returned, s1\<lparr>doc := SubElement_text (doc s1) hippub ''sendAs'' (Some sa)\<rparr>))
      else
        (Returned, s\<lparr>doc := SubElement_text (doc s) hippub ''jenkinsUrl'' (jenkinsUrl s)\<rparr>))"

text \<open>\<^verbatim>\<open>plugin_info.get('version', '0')\<close>.\<close>

definition reported_version :: "registry \<Rightarrow> string" where
  "reported_version reg =
     (case map_of (get_plugin_info reg ''Jenkins HipChat Plugin'') ''version'' of
        None \<Rightarrow> ''0''
      | Some v \<Rightarrow> v)"

text \<open>
  Lines 108-167, the body of \<^verbatim>\<open>gen_xml\<close> after its guard.
  \<^verbatim>\<open>pkg_resources.parse_version\<close> belongs to setuptools, not to the repository: it is
  the parameter \<open>parse_version\<close>, a function from version strings into an ordered type.
\<close>

definition gen_xml_body ::
  "(string \<Rightarrow> 'v::ord) \<Rightarrow> registry \<Rightarrow> state \<Rightarrow> hipchat_cfg \<Rightarrow> outcome \<times> state" where
  "gen_xml_body parse_version reg s hipchat =
     (case load_global_data reg s of
        (Returned, s1) \<Rightarrow>
          (let (d1, properties) = find_or_create (doc s1) ''properties'';
               (d2, pdefhip) = SubElement d1 properties job_property_tag;
               (d3, room_ref) = SubElement d2 pdefhip ''room''
           in case set_room hipchat room_ref (s1\<lparr>doc := d3\<rparr>) of
                (Returned, s2) \<Rightarrow>
                  (let (d4, publishers) = find_or_create (doc s2) ''publishers'';
                       (d5, hippub) = SubElement d4 publishers notifier_tag;
                       d6 = write_flags hipchat d5 [hippub, pdefhip];
                       s3 = emit (GetPluginInfo ''Jenkins HipChat Plugin'') (s2\<lparr>doc := d6\<rparr>);
                       version = parse_version (reported_version reg)
                   in case write_urls (version \<ge> parse_version ''0.1.8'') hippub s3 of
                        (Returned, s4) \<Rightarrow>
                          (let d7 = SubElement_text (doc s4) hippub ''authToken'' (authToken s4);
                               d8 = SubElement_text d7 hippub ''room'' (get_text d7 room_ref)
                           in (Returned, s4\<lparr>doc := d8\<rparr>))
                      | failed \<Rightarrow> failed)
              | failed \<Rightarrow> failed)
      | failed \<Rightarrow> failed)"

text \<open>
  \<^verbatim>\<open>gen_xml(self, parser, xml_parent, data)\<close>; \<open>data\<close> is the value of
  \<^verbatim>\<open>data.get('hipchat')\<close>, \<open>None\<close> when the job has no such key. The parser argument is
  not used by the code.
\<close>

definition gen_xml ::
  "(string \<Rightarrow> 'v::ord) \<Rightarrow> registry \<Rightarrow> state \<Rightarrow> hipchat_cfg option \<Rightarrow> outcome \<times> state" where
  "gen_xml parse_version reg s data =
     (case data of
        None \<Rightarrow> (Returned, s)
      | Some hipchat \<Rightarrow>
          (if is_empty hipchat \<or> \<not> get_enabled hipchat
           then (Returned, s)
           else gen_xml_body parse_version reg s hipchat))"

subsection \<open>Release versions\<close>

text \<open>
  A model of \<^verbatim>\<open>pkg_resources.parse_version\<close> on release numbers, the dotted decimal
  strings such as \<^verbatim>\<open>0.1.8\<close>: the components as numbers, trailing zero components dropped
  (\<^verbatim>\<open>1.0\<close> and \<^verbatim>\<open>1\<close> are the same version), compared component by component from the
  left. A string with any other character has no release number.
\<close>

definition digit_val :: "char \<Rightarrow> nat option" where
  "digit_val c =
     (if (48::nat) \<le> of_char c \<and> of_char c \<le> (57::nat)
      then Some (of_char c - 48) else None)"

text \<open>
  Reads the string from the left; \<open>cur\<close> is the component being read (\<open>None\<close>: no digit
  of it yet), \<open>acc\<close> the components read so far.
\<close>

fun components :: "nat option \<Rightarrow> nat list \<Rightarrow> string \<Rightarrow> nat list option" where
  "components cur acc [] = (case cur of None \<Rightarrow> None | Some n \<Rightarrow> Some (acc @ [n]))"
| "components cur acc (c # cs) =
     (if c = CHR ''.''
      then (case cur of None \<Rightarrow> None | Some n \<Rightarrow> components None (acc @ [n]) cs)
      else (case digit_val c of
              None \<Rightarrow> None
            | Some k \<Rightarrow> components (Some ((case cur of None \<Rightarrow> 0 | Some n \<Rightarrow> 10 * n) + k)) acc cs))"

fun drop_trailing_zeros :: "nat list \<Rightarrow> nat list" where
  "drop_trailing_zeros [] = []"
| "drop_trailing_zeros (n # ns) =
     (case drop_trailing_zeros ns of
        [] \<Rightarrow> (if n = 0 then [] else [n])
      | m # ms \<Rightarrow> n # m # ms)"

definition release_version :: "string \<Rightarrow> nat list option" where
  "release_version v = map_option drop_trailing_zeros (components None [] v)"

section \<open>Reading the result\<close>

subsection \<open>Observations of a document\<close>

text \<open>
  The children of the section with tag \<open>t\<close>, that is of the element
  \<^verbatim>\<open>xml_parent.find(t)\<close>; no children when there is no such section.
\<close>

definition section_children :: "string \<Rightarrow> xml \<Rightarrow> xml list" where
  "section_children t d =
     (case find_idx t (echildren d) of
        None \<Rightarrow> []
      | Some i \<Rightarrow> echildren (echildren d ! i))"

text \<open>The texts of the children of \<open>e\<close> that have tag \<open>t\<close>, in order.\<close>

definition field_texts :: "string \<Rightarrow> xml \<Rightarrow> string option list" where
  "field_texts t e = map etext (filter (\<lambda>c. etag c = t) (echildren e))"

subsection \<open>The document after a translation, in closed form\<close>

text \<open>
  These definitions describe results; the translator above does not use them. The
  lemmas of the next section show that it computes them.
\<close>

definition append_children :: "xml list \<Rightarrow> xml \<Rightarrow> xml" where
  "append_children ns e = Element (etag e) (etext e) (echildren e @ ns)"

text \<open>
  Node \<open>n\<close> appended to the section \<open>t\<close> of \<open>d\<close>: to the first child with that tag
  when there is one, whose text and children stay; otherwise to a new section appended
  to \<open>d\<close>.
\<close>

definition attach :: "string \<Rightarrow> xml \<Rightarrow> xml \<Rightarrow> xml" where
  "attach t n d =
     (case find_idx t (echildren d) of
        None \<Rightarrow> append_child (Element t None [n]) d
      | Some i \<Rightarrow> modify [i] (append_child n) d)"

definition sect_idx :: "string \<Rightarrow> xml \<Rightarrow> nat" where
  "sect_idx t d =
     (case find_idx t (echildren d) of None \<Rightarrow> length (echildren d) | Some i \<Rightarrow> i)"

abbreviation second_idx :: "string \<Rightarrow> string \<Rightarrow> xml \<Rightarrow> nat" where
  "second_idx t' t d \<equiv>
     sect_idx t' d +
       (if find_idx t' (echildren d) = None \<and> find_idx t (echildren d) = None then 1 else 0)"

definition flag_field :: "hipchat_cfg \<Rightarrow> string \<times> string \<times> bool \<Rightarrow> xml list" where
  "flag_field h k =
     (case k of (source, target, optional) \<Rightarrow>
        if \<not> optional \<or> truthy (get_flag h source)
        then [Element target (Some (lower (str_bool (get_flag_default h source)))) []]
        else [])"

definition flag_fields :: "hipchat_cfg \<Rightarrow> xml list" where
  "flag_fields h = concat (map (flag_field h) yaml2xmlkeys)"

definition room_text :: "hipchat_cfg \<Rightarrow> string option" where
  "room_text h = (case rooms h of Some rs \<Rightarrow> Some (join '','' rs) | None \<Rightarrow> room h)"

definition url_fields :: "bool \<Rightarrow> state \<Rightarrow> xml list" where
  "url_fields at_least_baseline s =
     (if at_least_baseline
      then [Element ''buildServerUrl'' (jenkinsUrl s) [], Element ''sendAs'' (sendAs s) []]
      else [Element ''jenkinsUrl'' (jenkinsUrl s) []])"

definition property_node :: "hipchat_cfg \<Rightarrow> xml" where
  "property_node h =
     Element job_property_tag None (Element ''room'' (room_text h) [] # flag_fields h)"

definition publisher_node :: "bool \<Rightarrow> state \<Rightarrow> hipchat_cfg \<Rightarrow> xml" where
  "publisher_node at_least_baseline s h =
     Element notifier_tag None
       (flag_fields h @ url_fields at_least_baseline s
          @ [Element ''authToken'' (authToken s) [], Element ''room'' (room_text h) []])"

definition room_warning :: "hipchat_cfg \<Rightarrow> event list" where
  "room_warning h =
     (if rooms h = None
      then [LogWarn (quoted ''room'' @ '' is deprecated, please use '' @ quoted ''rooms'')]
      else [])"

abbreviation format_error :: exc where
  "format_error \<equiv>
     YAMLFormatError (''Must specify either '' @ quoted ''room'' @ '' or '' @ quoted ''rooms''
                        @ '' in hipchat config.'')"

text \<open>The six keys other than \<^verbatim>\<open>start-notify\<close>, each with its target field.\<close>

definition notify_flags :: "(string \<times> string) list" where
  "notify_flags =
     [(''notify-success'', ''notifySuccess''),
      (''notify-aborted'', ''notifyAborted''),
      (''notify-not-built'', ''notifyNotBuilt''),
      (''notify-unstable'', ''notifyUnstable''),
      (''notify-failure'', ''notifyFailure''),
      (''notify-back-to-normal'', ''notifyBackToNormal'')]"

text \<open>
  A version parser orders release numbers as numbers: on two strings that are release
  numbers its order is the order of their components.
\<close>

definition orders_releases :: "(string \<Rightarrow> 'v::ord) \<Rightarrow> bool" where
  "orders_releases parse_version =
     (\<forall>a b x y. release_version a = Some x \<longrightarrow> release_version b = Some y \<longrightarrow>
        (parse_version b \<le> parse_version a) = (y \<le> x))"

subsection \<open>Example inputs\<close>

text \<open>A version parser that orders release numbers: the components themselves.\<close>

definition release_key :: "string \<Rightarrow> nat list" where
  "release_key v = (case release_version v of None \<Rightarrow> [] | Some ns \<Rightarrow> ns)"

definition example_config :: config where
  "example_config =
     [(''hipchat'', [(''authtoken'', ''secret''), (''send-as'', ''Jenkins'')]),
      (''jenkins'', [(''url'', ''http://localhost:8080/'')])]"

text \<open>A registry whose plugin query reports version \<open>v\<close>.\<close>

definition example_registry :: "string \<Rightarrow> registry" where
  "example_registry v =
     \<lparr>global_config = example_config, get_plugin_info = (\<lambda>name. [(''version'', v)])\<rparr>"

text \<open>A store with a \<^verbatim>\<open>[hipchat]\<close> section that has no \<^verbatim>\<open>authtoken\<close> option.\<close>

definition no_token_registry :: registry where
  "no_token_registry =
     \<lparr>global_config =
        [(''hipchat'', [(''send-as'', ''Jenkins'')]),
         (''jenkins'', [(''url'', ''http://localhost:8080/'')])],
      get_plugin_info = (\<lambda>name. [(''version'', ''0.1.9'')])\<rparr>"

definition empty_registry :: registry where
  "empty_registry = \<lparr>global_config = [], get_plugin_info = (\<lambda>name. [])\<rparr>"

definition example_doc :: xml where
  "example_doc = Element ''project'' None []"

definition rooms_hipchat :: hipchat_cfg where
  "rooms_hipchat =
     \<lparr>enabled = None, room = None, rooms = Some [''dev'', ''ops''],
      flags = [(''notify-success'', True)]\<rparr>"

definition plain_hipchat :: hipchat_cfg where
  "plain_hipchat = \<lparr>enabled = None, room = None, rooms = Some [''dev''], flags = []\<rparr>"

definition both_hipchat :: hipchat_cfg where
  "both_hipchat =
     \<lparr>enabled = Some True, room = Some ''old'', rooms = Some [''dev'', ''ops''], flags = []\<rparr>"

definition no_room_hipchat :: hipchat_cfg where
  "no_room_hipchat =
     \<lparr>enabled = Some True, room = None, rooms = None, flags = [(''notify-failure'', True)]\<rparr>"

text \<open>A mapping with the deprecated \<^verbatim>\<open>room\<close> key only.\<close>

definition single_hipchat :: hipchat_cfg where
  "single_hipchat = \<lparr>enabled = None, room = Some ''teamroom'', rooms = None, flags = []\<rparr>"

definition disabled_hipchat :: hipchat_cfg where
  "disabled_hipchat =
     \<lparr>enabled = Some False, room = None, rooms = Some [''dev''], flags = []\<rparr>"

definition empty_hipchat :: hipchat_cfg where
  "empty_hipchat = \<lparr>enabled = None, room = None, rooms = None, flags = []\<rparr>"

text \<open>
  The documents that \<open>rooms_hipchat\<close> yields from \<open>example_doc\<close>, under a plugin
  version at or above the baseline and under an older one.
\<close>

definition rooms_doc_new :: xml where
  "rooms_doc_new =
     Element ''project'' None
       [Element ''properties'' None
          [Element job_property_tag None
             [Element ''room'' (Some ''dev,ops'') [],
              Element ''startNotification'' (Some ''false'') [],
              Element ''notifySuccess'' (Some ''true'') []]],
        Element ''publishers'' None
          [Element notifier_tag None
             [Element ''startNotification'' (Some ''false'') [],
              Element ''notifySuccess'' (Some ''true'') [],
              Element ''buildServerUrl'' (Some ''http://localhost:8080/'') [],
              Element ''sendAs'' (Some ''Jenkins'') [],
              Element ''authToken'' (Some ''secret'') [],
              Element ''room'' (Some ''dev,ops'') []]]]"

definition rooms_doc_old :: xml where
  "rooms_doc_old =
     Element ''project'' None
       [Element ''properties'' None
          [Element job_property_tag None
             [Element ''room'' (Some ''dev,ops'') [],
              Element ''startNotification'' (Some ''false'') [],
              Element ''notifySuccess'' (Some ''true'') []]],
        Element ''publishers'' None
          [Element notifier_tag None
             [Element ''startNotification'' (Some ''false'') [],
              Element ''notifySuccess'' (Some ''true'') [],
              Element ''jenkinsUrl'' (Some ''http://localhost:8080/'') [],
              Element ''authToken'' (Some ''secret'') [],
              Element ''room'' (Some ''dev,ops'') []]]]"

text \<open>
  The documents that \<open>plain_hipchat\<close>, \<open>both_hipchat\<close> and \<open>single_hipchat\<close> yield
  from \<open>example_doc\<close> under version \<^verbatim>\<open>0.1.9\<close>, and the document \<open>no_room_hipchat\<close>
  leaves behind.
\<close>

definition plain_doc :: xml where
  "plain_doc =
     Element ''project'' None
       [Element ''properties'' None
          [Element job_property_tag None
             [Element ''room'' (Some ''dev'') [],
              Element ''startNotification'' (Some ''false'') []]],
        Element ''publishers'' None
          [Element notifier_tag None
             [Element ''startNotification'' (Some ''false'') [],
              Element ''buildServerUrl'' (Some ''http://localhost:8080/'') [],
              Element ''sendAs'' (Some ''Jenkins'') [],
              Element ''authToken'' (Some ''secret'') [],
              Element ''room'' (Some ''dev'') []]]]"

definition both_doc :: xml where
  "both_doc =
     Element ''project'' None
       [Element ''properties'' None
          [Element job_property_tag None
             [Element ''room'' (Some ''dev,ops'') [],
              Element ''startNotification'' (Some ''false'') []]],
        Element ''publishers'' None
          [Element notifier_tag None
             [Element ''startNotification'' (Some ''false'') [],
              Element ''buildServerUrl'' (Some ''http://localhost:8080/'') [],
              Element ''sendAs'' (Some ''Jenkins'') [],
              Element ''authToken'' (Some ''secret'') [],
              Element ''room'' (Some ''dev,ops'') []]]]"

definition single_doc :: xml where
  "single_doc =
     Element ''project'' None
       [Element ''properties'' None
          [Element job_property_tag None
             [Element ''room'' (Some ''teamroom'') [],
              Element ''startNotification'' (Some ''false'') []]],
        Element ''publishers'' None
          [Element notifier_tag None
             [Element ''startNotification'' (Some ''false'') [],
              Element ''buildServerUrl'' (Some ''http://localhost:8080/'') [],
              Element ''sendAs'' (Some ''Jenkins'') [],
              Element ''authToken'' (Some ''secret'') [],
              Element ''room'' (Some ''teamroom'') []]]]"

definition no_room_doc :: xml where
  "no_room_doc =
     Element ''project'' None
       [Element ''properties'' None
          [Element job_property_tag None [Element ''room'' None []]]]"

text \<open>The instance after a load from \<open>example_config\<close>.\<close>

definition loaded :: "xml \<Rightarrow> event list \<Rightarrow> state" where
  "loaded d tr =
     \<lparr>authToken = Some ''secret'', jenkinsUrl = Some ''http://localhost:8080/'',
      sendAs = Some ''Jenkins'', doc = d, trace = tr\<rparr>"

definition load_events :: "event list" where
  "load_events =
     [ConfigGet ''hipchat'' ''authtoken'', ConfigGet ''jenkins'' ''url'',
      ConfigGet ''hipchat'' ''send-as'']"

section \<open>Lemmas\<close>

subsection \<open>Lower-casing a bool\<close>

lemma lower_True: "lower ''True'' = ''true''"
  by code_simp

lemma lower_False: "lower ''False'' = ''false''"
  by code_simp

lemma lower_str_bool: "lower (str_bool b) = (if b then ''true'' else ''false'')"
  by (simp add: str_bool_def lower_True lower_False)

subsection \<open>References into a document\<close>

lemma modify_append: "modify (p @ q) f d = modify p (modify q f) d"
  by (induction p arbitrary: d) simp_all

lemma modify_modify: "modify p f (modify p g d) = modify p (\<lambda>e. f (g e)) d"
  by (induction p arbitrary: d) simp_all

lemma node_at_append:
  "node_at d (p @ q) = (case node_at d p of None \<Rightarrow> None | Some e \<Rightarrow> node_at e q)"
  by (induction p arbitrary: d) simp_all

lemma node_at_modify: "node_at d p = Some e \<Longrightarrow> node_at (modify p f d) p = Some (f e)"
  by (induction p arbitrary: d) (auto split: if_splits)

lemma field_at:
  assumes "node_at d p \<noteq> None"
  shows "SubElement_text d p t v = modify p (append_children [Element t v []]) d"
  using assms unfolding SubElement_text_def
proof (induction p arbitrary: d)
  case Nil
  then show ?case
    by (simp add: SubElement_def num_children_def set_text_def append_child_def append_children_def)
next
  case (Cons i p)
  then show ?case
    by (auto simp: SubElement_def num_children_def set_text_def split: if_splits)
qed

subsection \<open>Sections\<close>

lemma find_idx_Some: "find_idx t ks = Some i \<Longrightarrow> i < length ks \<and> etag (ks ! i) = t"
  by (induction ks arbitrary: i) (auto split: if_splits)

lemma find_idx_tags: "map etag ks = map etag ks' \<Longrightarrow> find_idx t ks = find_idx t ks'"
proof (induction ks arbitrary: ks')
  case Nil
  then show ?case by simp
next
  case (Cons k ks)
  then obtain k' ks2 where "ks' = k' # ks2" by (cases ks') auto
  with Cons show ?case by auto
qed

lemma find_idx_snoc:
  "find_idx t (ks @ [k]) =
     (case find_idx t ks of
        Some i \<Rightarrow> Some i
      | None \<Rightarrow> if etag k = t then Some (length ks) else None)"
  by (induction ks) (auto split: option.splits)

lemma find_idx_update:
  assumes "i < length ks" and "etag e = etag (ks ! i)"
  shows "find_idx t (ks[i := e]) = find_idx t ks"
proof (rule find_idx_tags)
  show "map etag (ks[i := e]) = map etag ks"
    using assms by (simp add: map_update list_update_same_conv)
qed

lemma node_at_attach:
  "node_at (attach t n d) [sect_idx t d, length (section_children t d)] = Some n"
  by (auto simp: attach_def sect_idx_def section_children_def append_child_def nth_append
           dest: find_idx_Some split: option.splits)

lemma modify_attach:
  "modify [sect_idx t d, length (section_children t d)] g (attach t n d) = attach t (g n) d"
  by (auto simp: attach_def sect_idx_def section_children_def append_child_def nth_append
           dest: find_idx_Some split: option.splits)

lemma section_children_attach_same:
  "section_children t (attach t n d) = section_children t d @ [n]"
  by (auto simp: attach_def section_children_def append_child_def find_idx_snoc nth_append
             find_idx_update
           dest: find_idx_Some split: option.splits)

lemma find_idx_attach_other:
  "t' \<noteq> t \<Longrightarrow> find_idx t' (echildren (attach t n d)) = find_idx t' (echildren d)"
  by (auto simp: attach_def append_child_def find_idx_snoc find_idx_update
           dest: find_idx_Some split: option.splits)

lemma node_at_attach_other:
  assumes "t' \<noteq> t"
  shows "node_at (attach t' n' (attach t n d)) [sect_idx t d, length (section_children t d)] = Some n"
proof (cases "find_idx t' (echildren (attach t n d))")
  case None
  then have "attach t' n' (attach t n d) = append_child (Element t' None [n']) (attach t n d)"
    by (simp add: attach_def)
  moreover have "sect_idx t d < length (echildren (attach t n d))"
    by (auto simp: attach_def sect_idx_def append_child_def dest: find_idx_Some split: option.splits)
  ultimately show ?thesis
    using node_at_attach [of t n d] by (simp add: append_child_def nth_append)
next
  case (Some j)
  then have j: "j < length (echildren (attach t n d))" "etag (echildren (attach t n d) ! j) = t'"
    by (auto dest: find_idx_Some)
  have i: "sect_idx t d < length (echildren (attach t n d))"
    "etag (echildren (attach t n d) ! sect_idx t d) = t"
    by (auto simp: attach_def sect_idx_def append_child_def dest: find_idx_Some split: option.splits)
  from i j assms have "j \<noteq> sect_idx t d" by auto
  moreover from Some have "attach t' n' (attach t n d) = modify [j] (append_child n') (attach t n d)"
    by (simp add: attach_def)
  ultimately show ?thesis
    using node_at_attach [of t n d] i j by simp
qed

lemma modify_append_child:
  "i < length (echildren d) \<Longrightarrow>
   modify (i # p) g (append_child x d) = append_child x (modify (i # p) g d)"
  by (simp add: append_child_def nth_append list_update_append)

lemma modify_commute:
  "i \<noteq> j \<Longrightarrow> modify (i # p) f (modify (j # q) g d) = modify (j # q) g (modify (i # p) f d)"
  by (simp add: list_update_swap)

lemma find_idx_distinct:
  "find_idx t ks = Some i \<Longrightarrow> find_idx t' ks = Some j \<Longrightarrow> t \<noteq> t' \<Longrightarrow> i \<noteq> j"
  by (auto dest: find_idx_Some)

lemma sect_idx_attach:
  "sect_idx t d < length (echildren (attach t n d))"
  "etag (echildren (attach t n d) ! sect_idx t d) = t"
  by (auto simp: attach_def sect_idx_def append_child_def dest: find_idx_Some split: option.splits)

lemma modify_attach_other:
  assumes "t' \<noteq> t"
  shows "modify [sect_idx t d, length (section_children t d)] g (attach t' n' (attach t n d))
           = attach t' n' (attach t (g n) d)"
proof -
  let ?r = "[sect_idx t d, length (section_children t d)]"
  have same: "find_idx t' (echildren (attach t (g n) d)) = find_idx t' (echildren (attach t n d))"
    using assms by (simp add: find_idx_attach_other)
  show ?thesis
  proof (cases "find_idx t' (echildren (attach t n d))")
    case None
    have "modify ?r g (attach t' n' (attach t n d))
            = modify ?r g (append_child (Element t' None [n']) (attach t n d))"
      using None by (simp add: attach_def)
    also have "\<dots> = append_child (Element t' None [n']) (modify ?r g (attach t n d))"
      by (rule modify_append_child) (rule sect_idx_attach)
    also have "\<dots> = append_child (Element t' None [n']) (attach t (g n) d)"
      by (simp only: modify_attach)
    also have "\<dots> = attach t' n' (attach t (g n) d)"
      using None same by (simp add: attach_def)
    finally show ?thesis .
  next
    case (Some j)
    then have "etag (echildren (attach t n d) ! j) = t'"
      by (auto dest: find_idx_Some)
    with assms sect_idx_attach(2) [of t n d] have ne: "sect_idx t d \<noteq> j" by auto
    have "modify ?r g (attach t' n' (attach t n d))
            = modify ?r g (modify [j] (append_child n') (attach t n d))"
      using Some by (simp add: attach_def)
    also have "\<dots> = modify [j] (append_child n') (modify ?r g (attach t n d))"
      using ne by (rule modify_commute)
    also have "\<dots> = modify [j] (append_child n') (attach t (g n) d)"
      by (simp only: modify_attach)
    also have "\<dots> = attach t' n' (attach t (g n) d)"
      using Some same by (simp add: attach_def)
    finally show ?thesis .
  qed
qed

lemma section_children_attach_other:
  "t' \<noteq> t \<Longrightarrow> section_children t' (attach t n d) = section_children t' d"
  by (auto simp: attach_def section_children_def append_child_def find_idx_snoc find_idx_update
                 nth_append
           dest: find_idx_Some find_idx_distinct split: option.splits)

lemma sect_idx_attach_other:
  "t' \<noteq> t \<Longrightarrow> sect_idx t' (attach t n d) = sect_idx t' d + (if find_idx t' (echildren d) = None \<and> find_idx t (echildren d) = None then 1 else 0)"
  by (auto simp: attach_def sect_idx_def append_child_def find_idx_snoc find_idx_update
           dest: find_idx_Some split: option.splits)

lemma find_or_create_SubElement:
  assumes "find_or_create d t = (d1, sec)"
  shows "SubElement d1 sec tg =
           (attach t (Element tg None []) d, [sect_idx t d, length (section_children t d)])"
  using assms
  by (auto simp: find_or_create_def find_child_def SubElement_def num_children_def attach_def
                 sect_idx_def section_children_def append_child_def nth_append
           dest: find_idx_Some split: option.splits)

subsection \<open>The loop over the flags\<close>

lemma append_children_Nil: "append_children [] e = e"
  by (simp add: append_children_def)

lemma append_children_twice:
  "append_children ys (append_children xs e) = append_children (xs @ ys) e"
  by (simp add: append_children_def)

lemma modify_ident: "modify p (\<lambda>e. e) d = d"
  by (induction p arbitrary: d) simp_all

lemma node_at_modify_None: "node_at d p \<noteq> None \<Longrightarrow> node_at (modify p f d) p \<noteq> None"
  using node_at_modify by fastforce

lemma translate_to_xml_at:
  "node_at d p \<noteq> None \<Longrightarrow>
   translate_to_xml h d p source target optional
     = modify p (append_children (flag_field h (source, target, optional))) d"
  by (simp add: translate_to_xml_def flag_field_def field_at append_children_Nil [abs_def]
                modify_ident)

lemma write_keys_at:
  "node_at d p \<noteq> None \<Longrightarrow>
   foldl (\<lambda>d2 (yamlkey, xmlkey, xmloptional).
            translate_to_xml h d2 p yamlkey xmlkey xmloptional) d keys
     = modify p (append_children (concat (map (flag_field h) keys))) d"
proof (induction keys arbitrary: d)
  case Nil
  then show ?case by (simp add: append_children_Nil [abs_def] modify_ident)
next
  case (Cons k keys)
  obtain a b c where k: "k = (a, b, c)" by (cases k) auto
  have "node_at (translate_to_xml h d p a b c) p \<noteq> None"
    using Cons.prems by (simp add: translate_to_xml_at node_at_modify_None)
  then show ?case
    using Cons.prems
    by (simp add: k Cons.IH translate_to_xml_at modify_modify append_children_twice)
qed

subsection \<open>The body of \<^verbatim>\<open>gen_xml\<close>, path by path\<close>

lemma find_or_create_SubElement_case:
  "(case find_or_create d t of (d1, sec) \<Rightarrow> case SubElement d1 sec tg of (d2, r) \<Rightarrow> F d2 r)
     = F (attach t (Element tg None []) d) [sect_idx t d, length (section_children t d)]"
proof -
  obtain d1 sec where fc: "find_or_create d t = (d1, sec)" by force
  show ?thesis by (simp add: fc find_or_create_SubElement [OF fc])
qed

lemma modify_deep: "modify (i # k # c # q) f d = modify [i, k] (modify (c # q) f) d"
  using modify_append [of "[i, k]" "c # q" f d] by simp

lemma node_at_deep:
  "node_at d (i # k # c # q) = (case node_at d [i, k] of None \<Rightarrow> None | Some e \<Rightarrow> node_at e (c # q))"
  using node_at_append [of d "[i, k]" "c # q"] by simp

lemma node_at_second:
  assumes "t' \<noteq> t"
  shows "node_at (attach t' n' (attach t n d)) [second_idx t' t d, length (section_children t' d)] = Some n'"
  using node_at_attach [of t' n' "attach t n d"]
  unfolding sect_idx_attach_other [OF assms] section_children_attach_other [OF assms] .

lemma modify_second:
  assumes "t' \<noteq> t"
  shows "modify [second_idx t' t d, length (section_children t' d)] g (attach t' n' (attach t n d))
           = attach t' (g n') (attach t n d)"
  using modify_attach [of t' "attach t n d" g n']
  unfolding sect_idx_attach_other [OF assms] section_children_attach_other [OF assms] .

lemma SubElement_attach:
  "SubElement (attach t n d) [sect_idx t d, length (section_children t d)] tg =
     (attach t (append_child (Element tg None []) n) d,
      [sect_idx t d, length (section_children t d), length (echildren n)])"
  by (simp add: SubElement_def num_children_def node_at_attach modify_attach
           del: modify.simps node_at.simps)

lemma gen_xml_body_success:
  assumes load: "load_global_data reg s = (Returned, s1)"
    and rt: "room_text h = Some T"
    and sa: "pv (reported_version reg) \<ge> pv ''0.1.8'' \<longrightarrow> sendAs s1 \<noteq> None"
  shows "gen_xml_body pv reg s h =
           (Returned,
            s1\<lparr>doc := attach ''publishers''
                         (publisher_node (pv (reported_version reg) \<ge> pv ''0.1.8'') s1 h)
                         (attach ''properties'' (property_node h) (doc s1)),
                trace := trace s1 @ room_warning h @ [GetPluginInfo ''Jenkins HipChat Plugin'']\<rparr>)"
proof -
  have ne: "''publishers'' \<noteq> ''properties''" by simp
  note facts = node_at_attach modify_attach
    node_at_attach_other [OF ne] modify_attach_other [OF ne]
    node_at_second [OF ne] modify_second [OF ne]
    sect_idx_attach_other [OF ne] section_children_attach_other [OF ne]
  note exec = Let_def find_or_create_SubElement_case SubElement_attach facts set_room_def
    room_text_def set_text_def get_text_def emit_def modify_deep node_at_deep append_child_def
    write_flags_def write_keys_at field_at write_urls_def modify_modify append_children_twice
  note eval = append_children_def publisher_node_def property_node_def url_fields_def
    flag_fields_def room_warning_def room_text_def
  from rt consider (many) rs where "rooms h = Some rs" "T = join '','' rs"
    | (single) "rooms h = None" "room h = Some T"
    by (auto simp: room_text_def split: option.splits)
  then show ?thesis
  proof cases
    case many
    show ?thesis
    proof (cases "pv (reported_version reg) \<ge> pv ''0.1.8''")
      case True
      with sa obtain name where name: "sendAs s1 = Some name" by auto
      show ?thesis
        using many True name
        unfolding gen_xml_body_def load
        apply (simp add: exec del: modify.simps node_at.simps)
        apply (simp add: eval)
        done
    next
      case False
      show ?thesis
        using many False
        unfolding gen_xml_body_def load
        apply (simp add: exec del: modify.simps node_at.simps)
        apply (simp add: eval)
        done
    qed
  next
    case single
    show ?thesis
    proof (cases "pv (reported_version reg) \<ge> pv ''0.1.8''")
      case True
      with sa obtain name where name: "sendAs s1 = Some name" by auto
      show ?thesis
        using single True name
        unfolding gen_xml_body_def load
        apply (simp add: exec del: modify.simps node_at.simps)
        apply (simp add: eval)
        done
    next
      case False
      show ?thesis
        using single False
        unfolding gen_xml_body_def load
        apply (simp add: exec del: modify.simps node_at.simps)
        apply (simp add: eval)
        done
    qed
  qed
qed

lemma gen_xml_body_load_failed:
  assumes "load_global_data reg s = (out, s1)" and "out \<noteq> Returned"
  shows "gen_xml_body pv reg s h = (out, s1)"
  using assms by (cases out) (simp_all add: gen_xml_body_def)

lemma gen_xml_body_no_room:
  assumes load: "load_global_data reg s = (Returned, s1)"
    and rt: "room_text h = None"
  shows "gen_xml_body pv reg s h =
           (Raised format_error,
            s1\<lparr>doc := attach ''properties''
                         (Element job_property_tag None [Element ''room'' None []]) (doc s1)\<rparr>)"
proof -
  from rt have "rooms h = None" "room h = None"
    by (auto simp: room_text_def split: option.splits)
  then show ?thesis
    unfolding gen_xml_body_def load
    by (simp add: Let_def find_or_create_SubElement_case SubElement_attach set_room_def
          append_child_def del: modify.simps node_at.simps)
qed

lemma gen_xml_body_no_sendAs:
  assumes load: "load_global_data reg s = (Returned, s1)"
    and rt: "room_text h = Some T"
    and new: "pv (reported_version reg) \<ge> pv ''0.1.8''"
    and sa: "sendAs s1 = None"
  shows "gen_xml_body pv reg s h =
           (Raised (AttributeError
                      (quoted ''HipChat'' @ '' object has no attribute '' @ quoted ''sendAs'')),
            s1\<lparr>doc := attach ''publishers''
                         (Element notifier_tag None
                            (flag_fields h @ [Element ''buildServerUrl'' (jenkinsUrl s1) []]))
                         (attach ''properties'' (property_node h) (doc s1)),
                trace := trace s1 @ room_warning h @ [GetPluginInfo ''Jenkins HipChat Plugin'']\<rparr>)"
proof -
  have ne: "''publishers'' \<noteq> ''properties''" by simp
  note facts = node_at_attach modify_attach
    node_at_attach_other [OF ne] modify_attach_other [OF ne]
    node_at_second [OF ne] modify_second [OF ne]
    sect_idx_attach_other [OF ne] section_children_attach_other [OF ne]
  note exec = Let_def find_or_create_SubElement_case SubElement_attach facts set_room_def
    room_text_def set_text_def get_text_def emit_def modify_deep node_at_deep append_child_def
    write_flags_def write_keys_at field_at write_urls_def modify_modify append_children_twice
  note eval = append_children_def publisher_node_def property_node_def url_fields_def
    flag_fields_def room_warning_def room_text_def
  from rt consider (many) rs where "rooms h = Some rs" "T = join '','' rs"
    | (single) "rooms h = None" "room h = Some T"
    by (auto simp: room_text_def split: option.splits)
  then show ?thesis
  proof cases
    case many
    show ?thesis
      using many new sa
      unfolding gen_xml_body_def load
      apply (simp add: exec del: modify.simps node_at.simps)
      apply (simp add: eval)
      done
  next
    case single
    show ?thesis
      using single new sa
      unfolding gen_xml_body_def load
      apply (simp add: exec del: modify.simps node_at.simps)
      apply (simp add: eval)
      done
  qed
qed

lemma gen_xml_body_Returned:
  assumes "gen_xml_body pv reg s h = (Returned, s')"
  shows "\<exists>s1. load_global_data reg s = (Returned, s1) \<and> room_text h \<noteq> None \<and>
           (pv (reported_version reg) \<ge> pv ''0.1.8'' \<longrightarrow> sendAs s1 \<noteq> None) \<and>
           s' = s1\<lparr>doc := attach ''publishers''
                         (publisher_node (pv (reported_version reg) \<ge> pv ''0.1.8'') s1 h)
                         (attach ''properties'' (property_node h) (doc s1)),
                trace := trace s1 @ room_warning h @ [GetPluginInfo ''Jenkins HipChat Plugin'']\<rparr>"
proof -
  obtain out s1 where load: "load_global_data reg s = (out, s1)" by force
  have out: "out = Returned"
    using assms gen_xml_body_load_failed [OF load, of pv h] by (cases "out = Returned") auto
  have rt: "room_text h \<noteq> None"
    using assms gen_xml_body_no_room [OF load [unfolded out], of h pv] by auto
  then obtain T where T: "room_text h = Some T" by auto
  have sa: "pv (reported_version reg) \<ge> pv ''0.1.8'' \<longrightarrow> sendAs s1 \<noteq> None"
    using assms gen_xml_body_no_sendAs [OF load [unfolded out] T, of pv] by auto
  have "gen_xml_body pv reg s h =
          (Returned,
           s1\<lparr>doc := attach ''publishers''
                        (publisher_node (pv (reported_version reg) \<ge> pv ''0.1.8'') s1 h)
                        (attach ''properties'' (property_node h) (doc s1)),
               trace := trace s1 @ room_warning h @ [GetPluginInfo ''Jenkins HipChat Plugin'']\<rparr>)"
    by (rule gen_xml_body_success [OF load [unfolded out] T sa])
  with assms load out rt sa show ?thesis by simp
qed

lemma load_cached:
  "authToken s = Some t \<Longrightarrow> t \<noteq> [] \<Longrightarrow> load_global_data reg s = (Returned, s)"
  by (simp add: load_global_data_def)

lemma handle_load_error_doc: "handle_load_error e s = (out, s1) \<Longrightarrow> doc s1 = doc s"
  by (cases e) (auto simp: emit_def)

lemma load_doc:
  assumes "load_global_data reg s = (out, s1)"
  shows "doc s1 = doc s"
  using assms
  by (auto simp: load_global_data_def Let_def emit_def dest!: handle_load_error_doc
           split: if_splits sum.splits)

lemma handle_load_error_not_Returned: "fst (handle_load_error e s) \<noteq> Returned"
  by (cases e) auto

lemma load_Returned_token:
  assumes "load_global_data reg s = (Returned, s1)"
  shows "\<exists>t. authToken s1 = Some t \<and> t \<noteq> []"
  using assms handle_load_error_not_Returned
  by (auto simp: load_global_data_def Let_def emit_def split: if_splits sum.splits)
     (metis fst_conv)+

section \<open>The claims\<close>

subsection \<open>Fields of the two nodes\<close>

lemma filter_flag_field:
  "filter (\<lambda>c. etag c = t) (flag_field h k) = (if fst (snd k) = t then flag_field h k else [])"
  by (cases k) (simp add: flag_field_def)

lemma filter_flag_fields:
  "filter (\<lambda>c. etag c = t) (flag_fields h)
     = concat (map (\<lambda>k. if fst (snd k) = t then flag_field h k else []) yaml2xmlkeys)"
  by (simp add: flag_fields_def filter_concat comp_def filter_flag_field)

lemma flag_field_optional:
  "flag_field h (source, target, True)
     = (if get_flag h source = Some True then [Element target (Some ''true'') []] else [])"
  by (auto simp: flag_field_def truthy_def get_flag_def get_flag_default_def lower_str_bool
           split: option.splits)

lemma flag_field_always:
  "flag_field h (source, target, False)
     = [Element target (Some (if get_flag h source = Some True then ''true'' else ''false'')) []]"
  by (auto simp: flag_field_def truthy_def get_flag_def get_flag_default_def lower_str_bool
           split: option.splits)

lemma field_texts_property_node:
  "field_texts t (property_node h)
     = (if t = ''room'' then [room_text h] else [])
         @ map etext (filter (\<lambda>c. etag c = t) (flag_fields h))"
  by (simp add: field_texts_def property_node_def)

lemma field_texts_publisher_node:
  "field_texts t (publisher_node b s h)
     = map etext (filter (\<lambda>c. etag c = t) (flag_fields h))
         @ map etext (filter (\<lambda>c. etag c = t) (url_fields b s))
         @ (if t = ''authToken'' then [authToken s] else [])
         @ (if t = ''room'' then [room_text h] else [])"
  by (simp add: field_texts_def publisher_node_def)

lemma section_children_both:
  "section_children ''properties'' (attach ''publishers'' H (attach ''properties'' P d))
     = section_children ''properties'' d @ [P]"
  "section_children ''publishers'' (attach ''publishers'' H (attach ''properties'' P d))
     = section_children ''publishers'' d @ [H]"
  by (simp_all add: section_children_attach_same section_children_attach_other)

subsection \<open>Runs of \<^verbatim>\<open>gen_xml\<close>\<close>

lemma gen_xml_enabled:
  "\<not> is_empty h \<Longrightarrow> get_enabled h \<Longrightarrow> gen_xml pv reg s (Some h) = gen_xml_body pv reg s h"
  by (simp add: gen_xml_def)

lemma gen_xml_Returned:
  assumes "gen_xml pv reg s (Some h) = (Returned, s')" and "\<not> is_empty h" and "get_enabled h"
  shows "\<exists>s1. load_global_data reg s = (Returned, s1) \<and> room_text h \<noteq> None \<and>
           (pv (reported_version reg) \<ge> pv ''0.1.8'' \<longrightarrow> sendAs s1 \<noteq> None) \<and>
           s' = s1\<lparr>doc := attach ''publishers''
                         (publisher_node (pv (reported_version reg) \<ge> pv ''0.1.8'') s1 h)
                         (attach ''properties'' (property_node h) (doc s)),
                trace := trace s1 @ room_warning h @ [GetPluginInfo ''Jenkins HipChat Plugin'']\<rparr>"
proof -
  from assms have "gen_xml_body pv reg s h = (Returned, s')"
    by (simp add: gen_xml_enabled)
  from gen_xml_body_Returned [OF this] obtain s1 where
    s1: "load_global_data reg s = (Returned, s1)" "room_text h \<noteq> None"
      "pv (reported_version reg) \<ge> pv ''0.1.8'' \<longrightarrow> sendAs s1 \<noteq> None"
      "s' = s1\<lparr>doc := attach ''publishers''
                         (publisher_node (pv (reported_version reg) \<ge> pv ''0.1.8'') s1 h)
                         (attach ''properties'' (property_node h) (doc s1)),
                trace := trace s1 @ room_warning h @ [GetPluginInfo ''Jenkins HipChat Plugin'']\<rparr>"
    by blast
  with load_doc [OF s1(1)] show ?thesis by auto
qed

lemma room_text_cases:
  "room_text h = Some T \<longleftrightarrow> (case rooms h of Some rs \<Rightarrow> T = join '','' rs | None \<Rightarrow> room h = Some T)"
  by (auto simp: room_text_def split: option.splits)

lemma gen_xml_success:
  assumes "\<not> is_empty h" and "get_enabled h"
    and "load_global_data reg s = (Returned, s1)"
    and "room_text h = Some T"
    and "pv (reported_version reg) \<ge> pv ''0.1.8'' \<longrightarrow> sendAs s1 \<noteq> None"
  shows "gen_xml pv reg s (Some h) =
           (Returned,
            s1\<lparr>doc := attach ''publishers''
                         (publisher_node (pv (reported_version reg) \<ge> pv ''0.1.8'') s1 h)
                         (attach ''properties'' (property_node h) (doc s1)),
                trace := trace s1 @ room_warning h @ [GetPluginInfo ''Jenkins HipChat Plugin'']\<rparr>)"
  using assms(1,2) gen_xml_body_success [OF assms(3,4,5)] by (simp add: gen_xml_enabled)

subsection \<open>The examples\<close>

lemma example_load:
  "load_global_data (example_registry v) (init d) = (Returned, loaded d load_events)"
  by (simp add: load_global_data_def init_def example_registry_def example_config_def
        config_get_def emit_def loaded_def load_events_def)

lemma example_version: "reported_version (example_registry v) = v"
  by (simp add: reported_version_def example_registry_def)

lemma release_key_019: "release_key ''0.1.8'' \<le> release_key ''0.1.9''"
  by (simp add: release_key_def release_version_def digit_val_def)

lemma release_key_012: "\<not> release_key ''0.1.8'' \<le> release_key ''0.1.2''"
  by (simp add: release_key_def release_version_def digit_val_def)

lemma orders_releases_release_key: "orders_releases release_key"
  by (simp add: orders_releases_def release_key_def)

lemma rooms_hipchat_facts:
  "\<not> is_empty rooms_hipchat" "get_enabled rooms_hipchat"
  "room_text rooms_hipchat = Some ''dev,ops''"
  "room_warning rooms_hipchat = []"
  "flag_fields rooms_hipchat =
     [Element ''startNotification'' (Some ''false'') [],
      Element ''notifySuccess'' (Some ''true'') []]"
  by (simp_all add: rooms_hipchat_def is_empty_def get_enabled_def room_text_def
        room_warning_def flag_fields_def yaml2xmlkeys_def flag_field_optional flag_field_always
        get_flag_def)

lemma rooms_run_new:
  "gen_xml release_key (example_registry ''0.1.9'') (init example_doc) (Some rooms_hipchat) =
     (Returned, loaded rooms_doc_new (load_events @ [GetPluginInfo ''Jenkins HipChat Plugin'']))"
proof -
  have "gen_xml release_key (example_registry ''0.1.9'') (init example_doc) (Some rooms_hipchat) =
          (Returned,
           (loaded example_doc load_events)
             \<lparr>doc := attach ''publishers''
                (publisher_node (release_key (reported_version (example_registry ''0.1.9''))
                                   \<ge> release_key ''0.1.8'')
                   (loaded example_doc load_events) rooms_hipchat)
                (attach ''properties'' (property_node rooms_hipchat)
                   (doc (loaded example_doc load_events))),
              trace := trace (loaded example_doc load_events) @ room_warning rooms_hipchat
                         @ [GetPluginInfo ''Jenkins HipChat Plugin'']\<rparr>)"
    by (rule gen_xml_success [OF rooms_hipchat_facts(1,2) example_load rooms_hipchat_facts(3)])
       (simp add: loaded_def)
  then show ?thesis
    by (simp add: example_version release_key_019 rooms_hipchat_facts loaded_def
          publisher_node_def property_node_def url_fields_def attach_def append_child_def
          example_doc_def rooms_doc_new_def)
qed


lemma single_hipchat_facts:
  "\<not> is_empty single_hipchat" "get_enabled single_hipchat"
  "room_text single_hipchat = Some ''teamroom''"
  "room_warning single_hipchat
     = [LogWarn (quoted ''room'' @ '' is deprecated, please use '' @ quoted ''rooms'')]"
  "flag_fields single_hipchat = [Element ''startNotification'' (Some ''false'') []]"
  by (simp_all add: single_hipchat_def is_empty_def get_enabled_def room_text_def
        room_warning_def flag_fields_def yaml2xmlkeys_def flag_field_optional flag_field_always
        get_flag_def)

lemma single_run:
  "gen_xml release_key (example_registry ''0.1.9'') (init example_doc) (Some single_hipchat) =
     (Returned,
      loaded single_doc
        (load_events
           @ [LogWarn (quoted ''room'' @ '' is deprecated, please use '' @ quoted ''rooms''),
              GetPluginInfo ''Jenkins HipChat Plugin'']))"
proof -
  have "gen_xml release_key (example_registry ''0.1.9'') (init example_doc) (Some single_hipchat) =
          (Returned,
           (loaded example_doc load_events)
             \<lparr>doc := attach ''publishers''
                (publisher_node (release_key (reported_version (example_registry ''0.1.9''))
                                   \<ge> release_key ''0.1.8'')
                   (loaded example_doc load_events) single_hipchat)
                (attach ''properties'' (property_node single_hipchat)
                   (doc (loaded example_doc load_events))),
              trace := trace (loaded example_doc load_events) @ room_warning single_hipchat
                         @ [GetPluginInfo ''Jenkins HipChat Plugin'']\<rparr>)"
    by (rule gen_xml_success [OF single_hipchat_facts(1,2) example_load single_hipchat_facts(3)])
       (simp add: loaded_def)
  then show ?thesis
    by (simp add: example_version release_key_019 single_hipchat_facts loaded_def
          publisher_node_def property_node_def url_fields_def attach_def append_child_def
          example_doc_def single_doc_def)
qed

subsection \<open>The room text\<close>

text \<open>
  Claim C1. For an enabled mapping that has \<^verbatim>\<open>rooms\<close> or \<^verbatim>\<open>room\<close>, once the credentials
  have loaded (and the send-as name is set on the instance if the version gate asks for
  it), \<^verbatim>\<open>gen_xml\<close> returns. It has then appended one node \<open>P\<close> to the properties section
  and one node \<open>H\<close> to the publishers section; each has exactly one \<^verbatim>\<open>room\<close> field,
  the two texts are the same, and that text is the comma-joined \<^verbatim>\<open>rooms\<close> list when
  the mapping has \<^verbatim>\<open>rooms\<close>, the \<^verbatim>\<open>room\<close> string otherwise. Every run of \<^verbatim>\<open>gen_xml\<close>
  that returns for an enabled mapping is such a run.
\<close>

theorem room_text_same_in_both_nodes:
  assumes "get_enabled h"
    and "rooms h \<noteq> None \<or> room h \<noteq> None"
  shows "(load_global_data reg s = (Returned, s1) \<and>
          (pv (reported_version reg) \<ge> pv ''0.1.8'' \<longrightarrow> sendAs s1 \<noteq> None) \<longrightarrow>
            (\<exists>s' P H T.
               gen_xml pv reg s (Some h) = (Returned, s') \<and>
               section_children ''properties'' (doc s')
                 = section_children ''properties'' (doc s) @ [P] \<and>
               section_children ''publishers'' (doc s')
                 = section_children ''publishers'' (doc s) @ [H] \<and>
               etag P = job_property_tag \<and> etag H = notifier_tag \<and>
               field_texts ''room'' P = [Some T] \<and> field_texts ''room'' H = [Some T] \<and>
               (case rooms h of Some rs \<Rightarrow> T = join '','' rs | None \<Rightarrow> room h = Some T))) \<and>
         (\<forall>s'. gen_xml pv reg s (Some h) = (Returned, s') \<longrightarrow>
            (\<exists>s1. load_global_data reg s = (Returned, s1) \<and>
                  (pv (reported_version reg) \<ge> pv ''0.1.8'' \<longrightarrow> sendAs s1 \<noteq> None)))"
proof (intro conjI impI allI)
  from assms(2) have ne: "\<not> is_empty h" by (auto simp: is_empty_def)
  {
    fix s'
    assume "gen_xml pv reg s (Some h) = (Returned, s')"
    from gen_xml_Returned [OF this ne assms(1)]
    show "\<exists>s1. load_global_data reg s = (Returned, s1) \<and>
                (pv (reported_version reg) \<ge> pv ''0.1.8'' \<longrightarrow> sendAs s1 \<noteq> None)"
      by blast
  }
  assume a: "load_global_data reg s = (Returned, s1) \<and>
             (pv (reported_version reg) \<ge> pv ''0.1.8'' \<longrightarrow> sendAs s1 \<noteq> None)"
  from assms(2) have "room_text h \<noteq> None"
    by (auto simp: room_text_def split: option.splits)
  then obtain T where T: "room_text h = Some T" by auto
  let ?P = "property_node h"
  let ?H = "publisher_node (pv (reported_version reg) \<ge> pv ''0.1.8'') s1 h"
  let ?s' = "s1\<lparr>doc := attach ''publishers'' ?H (attach ''properties'' ?P (doc s1)),
                trace := trace s1 @ room_warning h @ [GetPluginInfo ''Jenkins HipChat Plugin'']\<rparr>"
  from a have load: "load_global_data reg s = (Returned, s1)"
    and sa: "pv (reported_version reg) \<ge> pv ''0.1.8'' \<longrightarrow> sendAs s1 \<noteq> None"
    by simp_all
  have run: "gen_xml pv reg s (Some h) = (Returned, ?s')"
    by (rule gen_xml_success [OF ne assms(1) load T sa])
  have "section_children ''properties'' (doc ?s') = section_children ''properties'' (doc s) @ [?P]"
    "section_children ''publishers'' (doc ?s') = section_children ''publishers'' (doc s) @ [?H]"
    by (simp_all add: section_children_both load_doc [OF load])
  moreover have "field_texts ''room'' ?P = [Some T]"
    by (simp add: field_texts_property_node filter_flag_fields yaml2xmlkeys_def T)
  moreover have "field_texts ''room'' ?H = [Some T]"
    by (simp add: field_texts_publisher_node filter_flag_fields yaml2xmlkeys_def T url_fields_def)
  moreover have "etag ?P = job_property_tag" "etag ?H = notifier_tag"
    by (simp_all add: property_node_def publisher_node_def)
  moreover have "case rooms h of Some rs \<Rightarrow> T = join '','' rs | None \<Rightarrow> room h = Some T"
    using T by (simp add: room_text_cases)
  ultimately show "\<exists>s' P H T.
               gen_xml pv reg s (Some h) = (Returned, s') \<and>
               section_children ''properties'' (doc s')
                 = section_children ''properties'' (doc s) @ [P] \<and>
               section_children ''publishers'' (doc s')
                 = section_children ''publishers'' (doc s) @ [H] \<and>
               etag P = job_property_tag \<and> etag H = notifier_tag \<and>
               field_texts ''room'' P = [Some T] \<and> field_texts ''room'' H = [Some T] \<and>
               (case rooms h of Some rs \<Rightarrow> T = join '','' rs | None \<Rightarrow> room h = Some T)"
    using run by blast
qed

text \<open>
  Both ways of naming the room, at \<open>rooms_hipchat\<close> and at \<open>single_hipchat\<close>: the
  translator returns, the text is \<^verbatim>\<open>dev,ops\<close> in both nodes for the list and
  \<^verbatim>\<open>teamroom\<close> in both nodes for the single room, which also logs the deprecation
  warning.
\<close>

theorem room_text_same_in_both_nodes_witness:
  "get_enabled rooms_hipchat \<and> rooms rooms_hipchat = Some [''dev'', ''ops''] \<and>
   get_enabled single_hipchat \<and> rooms single_hipchat = None \<and>
   room single_hipchat = Some ''teamroom'' \<and>
   load_global_data (example_registry ''0.1.9'') (init example_doc)
     = (Returned, loaded example_doc load_events) \<and>
   sendAs (loaded example_doc load_events) = Some ''Jenkins'' \<and>
   (\<exists>s' P H.
      gen_xml release_key (example_registry ''0.1.9'') (init example_doc) (Some rooms_hipchat)
        = (Returned, s') \<and>
      section_children ''properties'' (doc s') = [P] \<and>
      section_children ''publishers'' (doc s') = [H] \<and>
      field_texts ''room'' P = [Some ''dev,ops''] \<and>
      field_texts ''room'' H = [Some ''dev,ops'']) \<and>
   (\<exists>s' P H.
      gen_xml release_key (example_registry ''0.1.9'') (init example_doc) (Some single_hipchat)
        = (Returned, s') \<and>
      section_children ''properties'' (doc s') = [P] \<and>
      section_children ''publishers'' (doc s') = [H] \<and>
      field_texts ''room'' P = [Some ''teamroom''] \<and>
      field_texts ''room'' H = [Some ''teamroom'']) \<and>
   gen_xml release_key (example_registry ''0.1.9'') (init example_doc) (Some single_hipchat)
     = (Returned,
        loaded single_doc
          (load_events
             @ [LogWarn (quoted ''room'' @ '' is deprecated, please use '' @ quoted ''rooms''),
                GetPluginInfo ''Jenkins HipChat Plugin'']))"
proof -
  have sa: "sendAs (loaded example_doc load_events) = Some ''Jenkins''"
    by (simp add: loaded_def)
  then have pre: "load_global_data (example_registry ''0.1.9'') (init example_doc)
            = (Returned, loaded example_doc load_events) \<and>
          (release_key (reported_version (example_registry ''0.1.9'')) \<ge> release_key ''0.1.8''
             \<longrightarrow> sendAs (loaded example_doc load_events) \<noteq> None)"
    using example_load [of "''0.1.9''" example_doc] by simp
  have many: "rooms rooms_hipchat = Some [''dev'', ''ops'']"
    and one: "rooms single_hipchat = None" "room single_hipchat = Some ''teamroom''"
    by (simp_all add: rooms_hipchat_def single_hipchat_def)
  have r1: "rooms rooms_hipchat \<noteq> None \<or> room rooms_hipchat \<noteq> None"
    and r2: "rooms single_hipchat \<noteq> None \<or> room single_hipchat \<noteq> None"
    using many one by simp_all
  from room_text_same_in_both_nodes [OF rooms_hipchat_facts(2) r1,
      of "example_registry ''0.1.9''" "init example_doc" "loaded example_doc load_events"
         release_key] pre
  have w1: "\<exists>s' P H.
      gen_xml release_key (example_registry ''0.1.9'') (init example_doc) (Some rooms_hipchat)
        = (Returned, s') \<and>
      section_children ''properties'' (doc s') = [P] \<and>
      section_children ''publishers'' (doc s') = [H] \<and>
      field_texts ''room'' P = [Some ''dev,ops''] \<and>
      field_texts ''room'' H = [Some ''dev,ops'']"
    by (auto simp: many init_def example_doc_def section_children_def)
  from room_text_same_in_both_nodes [OF single_hipchat_facts(2) r2,
      of "example_registry ''0.1.9''" "init example_doc" "loaded example_doc load_events"
         release_key] pre
  have w2: "\<exists>s' P H.
      gen_xml release_key (example_registry ''0.1.9'') (init example_doc) (Some single_hipchat)
        = (Returned, s') \<and>
      section_children ''properties'' (doc s') = [P] \<and>
      section_children ''publishers'' (doc s') = [H] \<and>
      field_texts ''room'' P = [Some ''teamroom''] \<and>
      field_texts ''room'' H = [Some ''teamroom'']"
    by (auto simp: one init_def example_doc_def section_children_def)
  from w1 w2 rooms_hipchat_facts(2) single_hipchat_facts(2) many one sa single_run
    example_load [of "''0.1.9''" example_doc]
  show ?thesis by blast
qed

subsection \<open>The notification flags\<close>

text \<open>
  Claim C2, as amended. When \<^verbatim>\<open>gen_xml\<close> returns for an enabled mapping, both new nodes
  have exactly one \<^verbatim>\<open>startNotification\<close> field, with text \<^verbatim>\<open>true\<close> when
  \<^verbatim>\<open>start-notify\<close> is true in the mapping and \<^verbatim>\<open>false\<close> otherwise, also when the key is
  absent; and for each of the six other flags both nodes have its field, with text
  \<^verbatim>\<open>true\<close>, when the flag is true in the mapping, and no such field otherwise.
\<close>

theorem notification_flags_written:
  assumes "gen_xml pv reg s (Some h) = (Returned, s')"
    and "\<not> is_empty h" and "get_enabled h"
  shows "\<exists>P H.
           section_children ''properties'' (doc s') = section_children ''properties'' (doc s) @ [P] \<and>
           section_children ''publishers'' (doc s') = section_children ''publishers'' (doc s) @ [H] \<and>
           (\<forall>X \<in> {P, H}.
              field_texts ''startNotification'' X
                = [Some (if get_flag h ''start-notify'' = Some True then ''true'' else ''false'')] \<and>
              (\<forall>(source, target) \<in> set notify_flags.
                 field_texts target X
                   = (if get_flag h source = Some True then [Some ''true''] else [])))"
proof -
  from gen_xml_Returned [OF assms] obtain s1 where
    s': "s' = s1\<lparr>doc := attach ''publishers''
                         (publisher_node (pv (reported_version reg) \<ge> pv ''0.1.8'') s1 h)
                         (attach ''properties'' (property_node h) (doc s)),
                trace := trace s1 @ room_warning h @ [GetPluginInfo ''Jenkins HipChat Plugin'']\<rparr>"
    by auto
  let ?P = "property_node h"
  let ?H = "publisher_node (pv (reported_version reg) \<ge> pv ''0.1.8'') s1 h"
  have P: "field_texts ''startNotification'' ?P
             = [Some (if get_flag h ''start-notify'' = Some True then ''true'' else ''false'')]"
    "\<forall>(source, target) \<in> set notify_flags.
       field_texts target ?P = (if get_flag h source = Some True then [Some ''true''] else [])"
    by (simp_all add: field_texts_property_node filter_flag_fields yaml2xmlkeys_def
          notify_flags_def flag_field_optional flag_field_always)
  have H: "field_texts ''startNotification'' ?H
             = [Some (if get_flag h ''start-notify'' = Some True then ''true'' else ''false'')]"
    "\<forall>(source, target) \<in> set notify_flags.
       field_texts target ?H = (if get_flag h source = Some True then [Some ''true''] else [])"
    by (simp_all add: field_texts_publisher_node filter_flag_fields yaml2xmlkeys_def
          notify_flags_def flag_field_optional flag_field_always url_fields_def)
  show ?thesis
    unfolding s' using P H by (simp add: section_children_both)
qed


lemma plain_hipchat_facts:
  "\<not> is_empty plain_hipchat" "get_enabled plain_hipchat"
  "room_text plain_hipchat = Some ''dev''"
  "room_warning plain_hipchat = []"
  "flag_fields plain_hipchat = [Element ''startNotification'' (Some ''false'') []]"
  by (simp_all add: plain_hipchat_def is_empty_def get_enabled_def room_text_def
        room_warning_def flag_fields_def yaml2xmlkeys_def flag_field_optional flag_field_always
        get_flag_def)

lemma plain_run:
  "gen_xml release_key (example_registry ''0.1.9'') (init example_doc) (Some plain_hipchat) =
     (Returned, loaded plain_doc (load_events @ [GetPluginInfo ''Jenkins HipChat Plugin'']))"
proof -
  have "gen_xml release_key (example_registry ''0.1.9'') (init example_doc) (Some plain_hipchat) =
          (Returned,
           (loaded example_doc load_events)
             \<lparr>doc := attach ''publishers''
                (publisher_node (release_key (reported_version (example_registry ''0.1.9''))
                                   \<ge> release_key ''0.1.8'')
                   (loaded example_doc load_events) plain_hipchat)
                (attach ''properties'' (property_node plain_hipchat)
                   (doc (loaded example_doc load_events))),
              trace := trace (loaded example_doc load_events) @ room_warning plain_hipchat
                         @ [GetPluginInfo ''Jenkins HipChat Plugin'']\<rparr>)"
    by (rule gen_xml_success [OF plain_hipchat_facts(1,2) example_load plain_hipchat_facts(3)])
       (simp add: loaded_def)
  then show ?thesis
    by (simp add: example_version release_key_019 plain_hipchat_facts loaded_def
          publisher_node_def property_node_def url_fields_def attach_def append_child_def
          example_doc_def plain_doc_def)
qed

theorem notification_flags_written_witness:
  "gen_xml release_key (example_registry ''0.1.9'') (init example_doc) (Some rooms_hipchat)
     = (Returned, loaded rooms_doc_new (load_events @ [GetPluginInfo ''Jenkins HipChat Plugin''])) \<and>
   get_flag rooms_hipchat ''start-notify'' = None \<and>
   get_flag rooms_hipchat ''notify-success'' = Some True \<and>
   get_flag rooms_hipchat ''notify-failure'' = None \<and>
   (\<exists>P H. section_children ''properties'' rooms_doc_new = [P] \<and>
          section_children ''publishers'' rooms_doc_new = [H] \<and>
          field_texts ''startNotification'' P = [Some ''false''] \<and>
          field_texts ''startNotification'' H = [Some ''false''] \<and>
          field_texts ''notifySuccess'' P = [Some ''true''] \<and>
          field_texts ''notifySuccess'' H = [Some ''true''] \<and>
          field_texts ''notifyFailure'' P = [] \<and>
          field_texts ''notifyFailure'' H = [])"
proof -
  have g: "get_flag rooms_hipchat ''start-notify'' = None"
    "get_flag rooms_hipchat ''notify-success'' = Some True"
    "get_flag rooms_hipchat ''notify-failure'' = None"
    by (simp_all add: get_flag_def rooms_hipchat_def)
  from notification_flags_written [OF rooms_run_new rooms_hipchat_facts(1,2)]
  obtain P H where
    "section_children ''properties'' rooms_doc_new = [P]"
    "section_children ''publishers'' rooms_doc_new = [H]"
    "field_texts ''startNotification'' P = [Some ''false'']"
    "field_texts ''startNotification'' H = [Some ''false'']"
    "field_texts ''notifySuccess'' P = [Some ''true'']"
    "field_texts ''notifySuccess'' H = [Some ''true'']"
    "field_texts ''notifyFailure'' P = []"
    "field_texts ''notifyFailure'' H = []"
    by (auto simp: loaded_def init_def example_doc_def section_children_def g notify_flags_def)
  then show ?thesis
    using rooms_run_new g by auto
qed

text \<open>
  Claim C2 as stated fails on a mapping with \<^verbatim>\<open>rooms\<close> only: no value for
  \<^verbatim>\<open>start-notify\<close> is present, yet \<^verbatim>\<open>startNotification\<close> is written to both nodes, and
  none of the six other fields is written.
\<close>

theorem notification_flags_counterexample:
  "flags plain_hipchat = [] \<and>
   gen_xml release_key (example_registry ''0.1.9'') (init example_doc) (Some plain_hipchat)
     = (Returned, loaded plain_doc (load_events @ [GetPluginInfo ''Jenkins HipChat Plugin''])) \<and>
   section_children ''properties'' plain_doc =
     [Element job_property_tag None
        [Element ''room'' (Some ''dev'') [],
         Element ''startNotification'' (Some ''false'') []]] \<and>
   section_children ''publishers'' plain_doc =
     [Element notifier_tag None
        [Element ''startNotification'' (Some ''false'') [],
         Element ''buildServerUrl'' (Some ''http://localhost:8080/'') [],
         Element ''sendAs'' (Some ''Jenkins'') [],
         Element ''authToken'' (Some ''secret'') [],
         Element ''room'' (Some ''dev'') []]]"
  using plain_run by (simp add: plain_hipchat_def plain_doc_def section_children_def)


subsection \<open>The room requirement\<close>

lemma gen_xml_no_room:
  assumes "\<not> is_empty h" and "get_enabled h" and "room h = None" and "rooms h = None"
    and "load_global_data reg s = (Returned, s1)"
  shows "gen_xml pv reg s (Some h) =
           (Raised format_error,
            s1\<lparr>doc := attach ''properties''
                         (Element job_property_tag None [Element ''room'' None []]) (doc s)\<rparr>)"
proof -
  have "room_text h = None" using assms(3,4) by (simp add: room_text_def)
  from gen_xml_body_no_room [OF assms(5) this] load_doc [OF assms(5)] assms(1,2)
  show ?thesis by (simp add: gen_xml_enabled)
qed

lemma no_room_hipchat_facts:
  "\<not> is_empty no_room_hipchat" "get_enabled no_room_hipchat"
  "room no_room_hipchat = None" "rooms no_room_hipchat = None"
  by (simp_all add: no_room_hipchat_def is_empty_def get_enabled_def)

lemma no_room_run:
  "gen_xml release_key (example_registry ''0.1.9'') (init example_doc) (Some no_room_hipchat) =
     (Raised format_error, loaded no_room_doc load_events)"
  using gen_xml_no_room [OF no_room_hipchat_facts example_load,
      of release_key "''0.1.9''" example_doc]
  by (simp add: loaded_def init_def attach_def append_child_def example_doc_def no_room_doc_def)

text \<open>
  Claim C3, as amended. For an enabled mapping with neither \<^verbatim>\<open>room\<close> nor \<^verbatim>\<open>rooms\<close>,
  once the credentials have loaded, \<^verbatim>\<open>gen_xml\<close> raises the format error; the publishers
  section is neither created nor given a node; the properties section has by then
  been created if it was missing and has received a job-property node that holds a
  \<^verbatim>\<open>room\<close> element without text.
\<close>

theorem missing_room_raises_format_error:
  assumes "\<not> is_empty h" and "get_enabled h" and "room h = None" and "rooms h = None"
    and "load_global_data reg s = (Returned, s1)"
  shows "\<exists>s'. gen_xml pv reg s (Some h) = (Raised format_error, s') \<and>
           find_idx ''publishers'' (echildren (doc s')) = find_idx ''publishers'' (echildren (doc s)) \<and>
           section_children ''publishers'' (doc s') = section_children ''publishers'' (doc s) \<and>
           doc s' = attach ''properties''
                      (Element job_property_tag None [Element ''room'' None []]) (doc s) \<and>
           section_children ''properties'' (doc s') =
             section_children ''properties'' (doc s)
               @ [Element job_property_tag None [Element ''room'' None []]]"
  using gen_xml_no_room [OF assms, of pv]
  by (simp add: find_idx_attach_other section_children_attach_other section_children_attach_same)

theorem missing_room_raises_format_error_witness:
  "\<not> is_empty no_room_hipchat \<and> get_enabled no_room_hipchat \<and>
   room no_room_hipchat = None \<and> rooms no_room_hipchat = None \<and>
   load_global_data (example_registry ''0.1.9'') (init example_doc)
     = (Returned, loaded example_doc load_events) \<and>
   (\<exists>s'. gen_xml release_key (example_registry ''0.1.9'') (init example_doc) (Some no_room_hipchat)
            = (Raised format_error, s') \<and>
         find_idx ''publishers'' (echildren (doc s')) = None \<and>
         section_children ''publishers'' (doc s') = [] \<and>
         section_children ''properties'' (doc s')
           = [Element job_property_tag None [Element ''room'' None []]])"
proof -
  from missing_room_raises_format_error [OF no_room_hipchat_facts example_load,
      of release_key "''0.1.9''" example_doc]
  obtain s' where
    "gen_xml release_key (example_registry ''0.1.9'') (init example_doc) (Some no_room_hipchat)
       = (Raised format_error, s')"
    "find_idx ''publishers'' (echildren (doc s')) = None"
    "section_children ''publishers'' (doc s') = []"
    "section_children ''properties'' (doc s')
       = [Element job_property_tag None [Element ''room'' None []]]"
    by (auto simp: init_def example_doc_def section_children_def)
  then show ?thesis
    using no_room_hipchat_facts example_load by blast
qed

text \<open>
  Claim C3 as stated fails: with credentials that load, the format error is raised
  after the properties section and a job-property node have been added to the
  document, which was \<open>example_doc\<close> and is \<open>no_room_doc\<close> afterwards.
\<close>

theorem missing_room_counterexample:
  "enabled no_room_hipchat = Some True \<and> room no_room_hipchat = None \<and>
   rooms no_room_hipchat = None \<and>
   doc (init example_doc) = Element ''project'' None [] \<and>
   gen_xml release_key (example_registry ''0.1.9'') (init example_doc) (Some no_room_hipchat)
     = (Raised format_error,
        loaded
          (Element ''project'' None
             [Element ''properties'' None
                [Element job_property_tag None [Element ''room'' None []]]])
          load_events)"
  using no_room_run
  by (simp add: no_room_hipchat_def init_def example_doc_def no_room_doc_def)

lemma config_get_error:
  "config_get cfg sec opt = Inl e \<Longrightarrow> e = NoSectionError sec \<or> e = NoOptionError opt sec"
  by (auto simp: config_get_def split: option.splits)

lemma load_never_format_error:
  "fst (load_global_data reg s) \<noteq> Raised (YAMLFormatError msg)"
proof -
  have a: "fst (handle_load_error e x) \<noteq> Raised (YAMLFormatError msg)"
    if "e = NoSectionError sec \<or> e = NoOptionError opt sec \<or> e = JenkinsJobsException m"
    for e x sec opt m
    using that by auto
  show ?thesis
    unfolding load_global_data_def Let_def
    by (auto split: sum.splits dest!: config_get_error intro: a)
qed

text \<open>
  Claim C4, as amended. For an enabled mapping \<^verbatim>\<open>gen_xml\<close> raises the format error
  exactly when neither \<^verbatim>\<open>room\<close> nor \<^verbatim>\<open>rooms\<close> is present and the credentials have
  loaded; in particular a mapping with both keys is not a format error.
\<close>

theorem format_error_iff_no_room:
  assumes "\<not> is_empty h" and "get_enabled h"
  shows "(\<exists>msg. fst (gen_xml pv reg s (Some h)) = Raised (YAMLFormatError msg))
           \<longleftrightarrow> (room h = None \<and> rooms h = None \<and> fst (load_global_data reg s) = Returned)"
proof -
  obtain out s1 where load: "load_global_data reg s = (out, s1)" by force
  show ?thesis
  proof (cases "out = Returned")
    case False
    from gen_xml_body_load_failed [OF load False] assms
    have "gen_xml pv reg s (Some h) = (out, s1)" by (simp add: gen_xml_enabled)
    then show ?thesis
      using False load load_never_format_error [of reg s] by auto
  next
    case True
    note load' = load [unfolded True]
    show ?thesis
    proof (cases "room_text h")
      case None
      then have "room h = None" "rooms h = None"
        by (auto simp: room_text_def split: option.splits)
      with gen_xml_no_room [OF assms this load', of pv] load' show ?thesis by simp
    next
      case (Some T)
      then have present: "\<not> (room h = None \<and> rooms h = None)"
        by (auto simp: room_text_def)
      have "\<forall>msg. fst (gen_xml_body pv reg s h) \<noteq> Raised (YAMLFormatError msg)"
      proof (cases "pv (reported_version reg) \<ge> pv ''0.1.8'' \<and> sendAs s1 = None")
        case True
        with gen_xml_body_no_sendAs [OF load' Some, of pv] show ?thesis by simp
      next
        case False
        then have "pv (reported_version reg) \<ge> pv ''0.1.8'' \<longrightarrow> sendAs s1 \<noteq> None" by auto
        from gen_xml_body_success [OF load' Some this] show ?thesis by simp
      qed
      with present assms show ?thesis by (auto simp: gen_xml_enabled)
    qed
  qed
qed

lemma both_hipchat_facts:
  "\<not> is_empty both_hipchat" "get_enabled both_hipchat"
  "room_text both_hipchat = Some ''dev,ops''"
  "room_warning both_hipchat = []"
  "flag_fields both_hipchat = [Element ''startNotification'' (Some ''false'') []]"
  by (simp_all add: both_hipchat_def is_empty_def get_enabled_def room_text_def
        room_warning_def flag_fields_def yaml2xmlkeys_def flag_field_optional flag_field_always
        get_flag_def)

lemma both_run:
  "gen_xml release_key (example_registry ''0.1.9'') (init example_doc) (Some both_hipchat) =
     (Returned, loaded both_doc (load_events @ [GetPluginInfo ''Jenkins HipChat Plugin'']))"
proof -
  have "gen_xml release_key (example_registry ''0.1.9'') (init example_doc) (Some both_hipchat) =
          (Returned,
           (loaded example_doc load_events)
             \<lparr>doc := attach ''publishers''
                (publisher_node (release_key (reported_version (example_registry ''0.1.9''))
                                   \<ge> release_key ''0.1.8'')
                   (loaded example_doc load_events) both_hipchat)
                (attach ''properties'' (property_node both_hipchat)
                   (doc (loaded example_doc load_events))),
              trace := trace (loaded example_doc load_events) @ room_warning both_hipchat
                         @ [GetPluginInfo ''Jenkins HipChat Plugin'']\<rparr>)"
    by (rule gen_xml_success [OF both_hipchat_facts(1,2) example_load both_hipchat_facts(3)])
       (simp add: loaded_def)
  then show ?thesis
    by (simp add: example_version release_key_019 both_hipchat_facts loaded_def
          publisher_node_def property_node_def url_fields_def attach_def append_child_def
          example_doc_def both_doc_def)
qed

theorem format_error_iff_no_room_witness:
  "\<not> is_empty no_room_hipchat \<and> get_enabled no_room_hipchat \<and>
   room no_room_hipchat = None \<and> rooms no_room_hipchat = None \<and>
   fst (load_global_data (example_registry ''0.1.9'') (init example_doc)) = Returned \<and>
   (\<exists>msg. fst (gen_xml release_key (example_registry ''0.1.9'') (init example_doc)
                 (Some no_room_hipchat)) = Raised (YAMLFormatError msg))"
  using format_error_iff_no_room [OF no_room_hipchat_facts(1,2),
      of release_key "example_registry ''0.1.9''" "init example_doc"]
    no_room_hipchat_facts example_load [of "''0.1.9''" example_doc]
  by simp

text \<open>
  Claim C4 as stated fails on a mapping with both keys: no error is raised, and the
  text written is that of \<^verbatim>\<open>rooms\<close>.
\<close>

theorem both_rooms_counterexample:
  "enabled both_hipchat = Some True \<and> room both_hipchat = Some ''old'' \<and>
   rooms both_hipchat = Some [''dev'', ''ops''] \<and>
   gen_xml release_key (example_registry ''0.1.9'') (init example_doc) (Some both_hipchat)
     = (Returned, loaded both_doc (load_events @ [GetPluginInfo ''Jenkins HipChat Plugin'']))"
  using both_run by (simp add: both_hipchat_def)


subsection \<open>The plugin version gate\<close>

lemma release_versions:
  "release_version ''0.1.8'' = Some [0, 1, 8]"
  "release_version ''0.1.9'' = Some [0, 1, 9]"
  "release_version ''0.1.2'' = Some [0, 1, 2]"
  by (simp_all add: release_version_def digit_val_def)

lemma orders_releases_019:
  assumes "orders_releases pv"
  shows "pv ''0.1.8'' \<le> pv ''0.1.9''"
proof -
  from assms release_versions
  have "(pv ''0.1.8'' \<le> pv ''0.1.9'') = ([0, 1, 8] \<le> [0, 1, 9::nat])"
    unfolding orders_releases_def by blast
  then show ?thesis by simp
qed

lemma orders_releases_012:
  assumes "orders_releases pv"
  shows "\<not> pv ''0.1.8'' \<le> pv ''0.1.2''"
proof -
  from assms release_versions
  have "(pv ''0.1.8'' \<le> pv ''0.1.2'') = ([0, 1, 8] \<le> [0, 1, 2::nat])"
    unfolding orders_releases_def by blast
  then show ?thesis by simp
qed

lemma rooms_run_old:
  "gen_xml release_key (example_registry ''0.1.2'') (init example_doc) (Some rooms_hipchat) =
     (Returned, loaded rooms_doc_old (load_events @ [GetPluginInfo ''Jenkins HipChat Plugin'']))"
proof -
  have "gen_xml release_key (example_registry ''0.1.2'') (init example_doc) (Some rooms_hipchat) =
          (Returned,
           (loaded example_doc load_events)
             \<lparr>doc := attach ''publishers''
                (publisher_node (release_key (reported_version (example_registry ''0.1.2''))
                                   \<ge> release_key ''0.1.8'')
                   (loaded example_doc load_events) rooms_hipchat)
                (attach ''properties'' (property_node rooms_hipchat)
                   (doc (loaded example_doc load_events))),
              trace := trace (loaded example_doc load_events) @ room_warning rooms_hipchat
                         @ [GetPluginInfo ''Jenkins HipChat Plugin'']\<rparr>)"
    by (rule gen_xml_success [OF rooms_hipchat_facts(1,2) example_load rooms_hipchat_facts(3)])
       (simp add: loaded_def)
  then show ?thesis
    by (simp add: example_version release_key_012 rooms_hipchat_facts loaded_def
          publisher_node_def property_node_def url_fields_def attach_def append_child_def
          example_doc_def rooms_doc_old_def)
qed

text \<open>
  Claim C5. When \<^verbatim>\<open>gen_xml\<close> returns for an enabled mapping, the node \<open>H\<close> it has
  appended to the publishers section has, if the parsed reported version is at or above
  the parsed baseline \<^verbatim>\<open>0.1.8\<close>, exactly one \<^verbatim>\<open>buildServerUrl\<close> field (the cached server
  URL), exactly one \<^verbatim>\<open>sendAs\<close> field (the cached name) and no \<^verbatim>\<open>jenkinsUrl\<close> field;
  otherwise exactly one \<^verbatim>\<open>jenkinsUrl\<close> field and neither of the other two. For every
  parser that orders release numbers as numbers, a reported \<^verbatim>\<open>0.1.9\<close> gives the first
  case and a reported \<^verbatim>\<open>0.1.2\<close> the second.
\<close>

theorem version_gate_fields:
  assumes "gen_xml pv reg s (Some h) = (Returned, s')"
    and "\<not> is_empty h" and "get_enabled h"
  shows "\<exists>H. section_children ''publishers'' (doc s') = section_children ''publishers'' (doc s) @ [H] \<and>
           (if pv (reported_version reg) \<ge> pv ''0.1.8''
            then field_texts ''buildServerUrl'' H = [jenkinsUrl s'] \<and>
                 field_texts ''sendAs'' H = [sendAs s'] \<and>
                 field_texts ''jenkinsUrl'' H = []
            else field_texts ''jenkinsUrl'' H = [jenkinsUrl s'] \<and>
                 field_texts ''buildServerUrl'' H = [] \<and>
                 field_texts ''sendAs'' H = []) \<and>
           (orders_releases pv \<longrightarrow> reported_version reg = ''0.1.9'' \<longrightarrow>
              field_texts ''buildServerUrl'' H = [jenkinsUrl s'] \<and>
              field_texts ''sendAs'' H = [sendAs s'] \<and>
              field_texts ''jenkinsUrl'' H = []) \<and>
           (orders_releases pv \<longrightarrow> reported_version reg = ''0.1.2'' \<longrightarrow>
              field_texts ''jenkinsUrl'' H = [jenkinsUrl s'] \<and>
              field_texts ''buildServerUrl'' H = [] \<and>
              field_texts ''sendAs'' H = [])"
proof -
  from gen_xml_Returned [OF assms] obtain s1 where
    s': "s' = s1\<lparr>doc := attach ''publishers''
                         (publisher_node (pv (reported_version reg) \<ge> pv ''0.1.8'') s1 h)
                         (attach ''properties'' (property_node h) (doc s)),
                trace := trace s1 @ room_warning h @ [GetPluginInfo ''Jenkins HipChat Plugin'']\<rparr>"
    by auto
  let ?H = "publisher_node (pv (reported_version reg) \<ge> pv ''0.1.8'') s1 h"
  have new: "field_texts ''buildServerUrl'' ?H = [jenkinsUrl s1] \<and>
             field_texts ''sendAs'' ?H = [sendAs s1] \<and> field_texts ''jenkinsUrl'' ?H = []"
    if "pv (reported_version reg) \<ge> pv ''0.1.8''"
    using that
    by (simp add: field_texts_publisher_node filter_flag_fields yaml2xmlkeys_def url_fields_def)
  have old: "field_texts ''jenkinsUrl'' ?H = [jenkinsUrl s1] \<and>
             field_texts ''buildServerUrl'' ?H = [] \<and> field_texts ''sendAs'' ?H = []"
    if "\<not> pv (reported_version reg) \<ge> pv ''0.1.8''"
    using that
    by (simp add: field_texts_publisher_node filter_flag_fields yaml2xmlkeys_def url_fields_def)
  have "section_children ''publishers'' (doc s') = section_children ''publishers'' (doc s) @ [?H]"
    unfolding s' by (simp add: section_children_both)
  moreover have "jenkinsUrl s' = jenkinsUrl s1" "sendAs s' = sendAs s1"
    unfolding s' by simp_all
  ultimately show ?thesis
    using new old orders_releases_019 [of pv] orders_releases_012 [of pv] by auto
qed

theorem version_gate_fields_witness:
  "gen_xml release_key (example_registry ''0.1.9'') (init example_doc) (Some rooms_hipchat)
     = (Returned, loaded rooms_doc_new (load_events @ [GetPluginInfo ''Jenkins HipChat Plugin''])) \<and>
   gen_xml release_key (example_registry ''0.1.2'') (init example_doc) (Some rooms_hipchat)
     = (Returned, loaded rooms_doc_old (load_events @ [GetPluginInfo ''Jenkins HipChat Plugin''])) \<and>
   orders_releases release_key \<and>
   (\<exists>H. section_children ''publishers'' rooms_doc_new = [H] \<and>
        field_texts ''buildServerUrl'' H = [Some ''http://localhost:8080/''] \<and>
        field_texts ''sendAs'' H = [Some ''Jenkins''] \<and>
        field_texts ''jenkinsUrl'' H = []) \<and>
   (\<exists>H. section_children ''publishers'' rooms_doc_old = [H] \<and>
        field_texts ''jenkinsUrl'' H = [Some ''http://localhost:8080/''] \<and>
        field_texts ''buildServerUrl'' H = [] \<and>
        field_texts ''sendAs'' H = [])"
proof -
  note o = orders_releases_release_key
  from version_gate_fields [OF rooms_run_new rooms_hipchat_facts(1,2)] o
  have new: "\<exists>H. section_children ''publishers'' rooms_doc_new = [H] \<and>
        field_texts ''buildServerUrl'' H = [Some ''http://localhost:8080/''] \<and>
        field_texts ''sendAs'' H = [Some ''Jenkins''] \<and>
        field_texts ''jenkinsUrl'' H = []"
    by (auto simp: example_version loaded_def init_def example_doc_def section_children_def)
  from version_gate_fields [OF rooms_run_old rooms_hipchat_facts(1,2)] o
  have old: "\<exists>H. section_children ''publishers'' rooms_doc_old = [H] \<and>
        field_texts ''jenkinsUrl'' H = [Some ''http://localhost:8080/''] \<and>
        field_texts ''buildServerUrl'' H = [] \<and>
        field_texts ''sendAs'' H = []"
    by (auto simp: example_version loaded_def init_def example_doc_def section_children_def)
  from new old o rooms_run_new rooms_run_old show ?thesis by blast
qed


subsection \<open>The final fields of the publisher node\<close>

text \<open>
  Claim C6 says the \<^verbatim>\<open>room\<close> field written last to the publisher node is always
  empty, as the comment above line 167 does (\<^verbatim>\<open>Leave empty.\<close>). The statement
  of line 167 assigns \<^verbatim>\<open>room.text\<close>: on \<open>rooms_hipchat\<close> the publisher node's
  \<^verbatim>\<open>authToken\<close> field holds the cached token and its \<^verbatim>\<open>room\<close> field holds \<^verbatim>\<open>dev,ops\<close>.
\<close>

theorem publisher_room_field_not_empty:
  "rooms rooms_hipchat = Some [''dev'', ''ops''] \<and>
   fst (gen_xml release_key (example_registry ''0.1.9'') (init example_doc) (Some rooms_hipchat))
     = Returned \<and>
   field_texts ''authToken''
     (last (section_children ''publishers''
        (doc (snd (gen_xml release_key (example_registry ''0.1.9'') (init example_doc)
                     (Some rooms_hipchat))))))
     = [Some ''secret''] \<and>
   field_texts ''room''
     (last (section_children ''publishers''
        (doc (snd (gen_xml release_key (example_registry ''0.1.9'') (init example_doc)
                     (Some rooms_hipchat))))))
     = [Some ''dev,ops'']"
proof -
  have r: "rooms rooms_hipchat = Some [''dev'', ''ops'']"
    by (simp add: rooms_hipchat_def)
  show ?thesis
    unfolding rooms_run_new using r
    by (simp add: loaded_def rooms_doc_new_def section_children_def field_texts_def)
qed

subsection \<open>The credential loader\<close>

text \<open>
  A blank token and a missing \<^verbatim>\<open>[hipchat]\<close> section end the process with exit code 1
  after a fatal log record; the document is not touched.
\<close>

lemma load_blank_token_exits:
  assumes "authToken s = None \<or> authToken s = Some []"
    and "config_get (global_config reg) ''hipchat'' ''authtoken'' = Inr []"
  shows "load_global_data reg s =
           (Exited 1,
            s\<lparr>authToken := Some [],
               trace := trace s @
                 [ConfigGet ''hipchat'' ''authtoken'',
                  LogFatal (fatal_message
                    (JenkinsJobsException ''Hipchat authtoken must not be a blank string''))]\<rparr>)"
  using assms by (auto simp: load_global_data_def Let_def emit_def)

lemma load_missing_section_exits:
  assumes "authToken s = None \<or> authToken s = Some []"
    and "map_of (global_config reg) ''hipchat'' = None"
  shows "load_global_data reg s =
           (Exited 1,
            s\<lparr>trace := trace s @
                 [ConfigGet ''hipchat'' ''authtoken'',
                  LogFatal (fatal_message (NoSectionError ''hipchat''))]\<rparr>)"
  using assms by (auto simp: load_global_data_def Let_def emit_def config_get_def)

lemma gen_xml_exit_leaves_document:
  assumes "gen_xml pv reg s data = (Exited n, s')"
  shows "doc s' = doc s"
proof (cases data)
  case None
  with assms show ?thesis by (simp add: gen_xml_def)
next
  case (Some h)
  show ?thesis
  proof (cases "is_empty h \<or> \<not> get_enabled h")
    case True
    with assms Some show ?thesis by (auto simp: gen_xml_def)
  next
    case False
    obtain out s1 where load: "load_global_data reg s = (out, s1)" by force
    from False assms Some have body: "gen_xml_body pv reg s h = (Exited n, s')"
      by (simp add: gen_xml_def)
    show ?thesis
    proof (cases "out = Returned")
      case True
      note load' = load [unfolded True]
      show ?thesis
      proof (cases "room_text h")
        case None
        from gen_xml_body_no_room [OF load' None, of pv] body show ?thesis by simp
      next
        case (Some T)
        show ?thesis
        proof (cases "pv (reported_version reg) \<ge> pv ''0.1.8'' \<and> sendAs s1 = None")
          case True
          with gen_xml_body_no_sendAs [OF load' Some, of pv] body show ?thesis by simp
        next
          case False
          then have "pv (reported_version reg) \<ge> pv ''0.1.8'' \<longrightarrow> sendAs s1 \<noteq> None" by auto
          from gen_xml_body_success [OF load' Some this] body show ?thesis by simp
        qed
      qed
    next
      case False
      from gen_xml_body_load_failed [OF load False, of pv h] body load_doc [OF load]
      show ?thesis by simp
    qed
  qed
qed

text \<open>
  Claim C7 says that a missing token ends the process like a blank one. With a
  \<^verbatim>\<open>[hipchat]\<close> section that has no \<^verbatim>\<open>authtoken\<close> option the lookup raises
  \<^verbatim>\<open>NoOptionError\<close>, which the \<^verbatim>\<open>except\<close> clause does not name: the exception
  propagates out of \<^verbatim>\<open>gen_xml\<close>, nothing is logged and the process does not exit.
\<close>

theorem missing_token_raises_instead_of_exit:
  "map_of (global_config no_token_registry) ''hipchat'' = Some [(''send-as'', ''Jenkins'')] \<and>
   load_global_data no_token_registry (init example_doc)
     = (Raised (NoOptionError ''authtoken'' ''hipchat''),
        (init example_doc)\<lparr>trace := [ConfigGet ''hipchat'' ''authtoken'']\<rparr>) \<and>
   gen_xml release_key no_token_registry (init example_doc) (Some rooms_hipchat)
     = (Raised (NoOptionError ''authtoken'' ''hipchat''),
        (init example_doc)\<lparr>trace := [ConfigGet ''hipchat'' ''authtoken'']\<rparr>)"
proof -
  have load: "load_global_data no_token_registry (init example_doc)
     = (Raised (NoOptionError ''authtoken'' ''hipchat''),
        (init example_doc)\<lparr>trace := [ConfigGet ''hipchat'' ''authtoken'']\<rparr>)"
    by (simp add: load_global_data_def no_token_registry_def init_def config_get_def emit_def)
  from gen_xml_body_load_failed [OF load, of release_key rooms_hipchat] rooms_hipchat_facts(1,2)
  have "gen_xml release_key no_token_registry (init example_doc) (Some rooms_hipchat)
     = (Raised (NoOptionError ''authtoken'' ''hipchat''),
        (init example_doc)\<lparr>trace := [ConfigGet ''hipchat'' ''authtoken'']\<rparr>)"
    by (simp add: gen_xml_enabled)
  with load show ?thesis by (simp add: no_token_registry_def)
qed

lemma load_reads_without_token:
  assumes "authToken s = None \<or> authToken s = Some []"
  shows "\<exists>evs. trace (snd (load_global_data reg s))
                 = trace s @ ConfigGet ''hipchat'' ''authtoken'' # evs"
proof -
  have h: "\<exists>evs. trace (snd (handle_load_error e x)) = trace x @ evs" for e x
    by (cases e) (simp_all add: emit_def)
  have step: "\<exists>evs. trace (snd (handle_load_error e x)) = tr @ ev # evs"
    if "trace x = tr @ [ev]" for e x tr ev
    using h [of e x] that by auto
  show ?thesis
    using assms unfolding load_global_data_def Let_def
    by (auto simp: emit_def split: sum.splits intro!: step)
qed

text \<open>
  Claim C9. Whether the loader does anything is decided by the cached token alone.
  With a non-empty token on the instance an invocation, with whatever registry,
  returns at once: the token, the server URL, the send-as name, the document and the
  trace are as before, so nothing has been read from the configuration store. Every
  invocation that returns leaves such a token, so the invocations after it are
  no-ops. Without a token the loader does read the store.
\<close>

theorem load_global_data_idempotent:
  "(authToken s = Some t \<and> t \<noteq> [] \<longrightarrow> load_global_data reg s = (Returned, s)) \<and>
   (load_global_data reg s = (Returned, s1) \<longrightarrow> load_global_data reg' s1 = (Returned, s1)) \<and>
   (authToken s = None \<or> authToken s = Some [] \<longrightarrow>
      (\<exists>evs. trace (snd (load_global_data reg s))
                = trace s @ ConfigGet ''hipchat'' ''authtoken'' # evs))"
proof (intro conjI impI)
  assume "authToken s = Some t \<and> t \<noteq> []"
  then show "load_global_data reg s = (Returned, s)" by (simp add: load_cached)
next
  assume "load_global_data reg s = (Returned, s1)"
  from load_Returned_token [OF this] obtain u where "authToken s1 = Some u" "u \<noteq> []" by auto
  then show "load_global_data reg' s1 = (Returned, s1)" by (rule load_cached)
next
  assume "authToken s = None \<or> authToken s = Some []"
  then show "\<exists>evs. trace (snd (load_global_data reg s))
                     = trace s @ ConfigGet ''hipchat'' ''authtoken'' # evs"
    by (rule load_reads_without_token)
qed

theorem load_global_data_idempotent_witness:
  "authToken (init example_doc) = None \<and>
   load_global_data (example_registry ''0.1.9'') (init example_doc)
     = (Returned, loaded example_doc load_events) \<and>
   trace (loaded example_doc load_events)
     = trace (init example_doc) @ ConfigGet ''hipchat'' ''authtoken''
         # [ConfigGet ''jenkins'' ''url'', ConfigGet ''hipchat'' ''send-as''] \<and>
   authToken (loaded example_doc load_events) = Some ''secret'' \<and>
   load_global_data empty_registry (loaded example_doc load_events)
     = (Returned, loaded example_doc load_events)"
proof -
  have t: "authToken (loaded example_doc load_events) = Some ''secret''"
    by (simp add: loaded_def)
  have n: "authToken (init example_doc) = None" by (simp add: init_def)
  have tr: "trace (loaded example_doc load_events)
     = trace (init example_doc) @ ConfigGet ''hipchat'' ''authtoken''
         # [ConfigGet ''jenkins'' ''url'', ConfigGet ''hipchat'' ''send-as'']"
    by (simp add: loaded_def init_def load_events_def)
  from load_global_data_idempotent
    [of "init example_doc" "''secret''" "example_registry ''0.1.9''" "loaded example_doc load_events"
       empty_registry]
    example_load [of "''0.1.9''" example_doc]
  have "load_global_data empty_registry (loaded example_doc load_events)
     = (Returned, loaded example_doc load_events)"
    by blast
  with example_load t n tr show ?thesis by blast
qed

subsection \<open>The guard\<close>

lemma gen_xml_body_not_noop: "gen_xml_body pv reg s h \<noteq> (Returned, s)"
proof
  assume "gen_xml_body pv reg s h = (Returned, s)"
  from gen_xml_body_Returned [OF this] obtain s1 where
    load: "load_global_data reg s = (Returned, s1)"
    and s: "s = s1\<lparr>doc := attach ''publishers''
                         (publisher_node (pv (reported_version reg) \<ge> pv ''0.1.8'') s1 h)
                         (attach ''properties'' (property_node h) (doc s1)),
                trace := trace s1 @ room_warning h @ [GetPluginInfo ''Jenkins HipChat Plugin'']\<rparr>"
    by blast
  from arg_cong [OF s, of doc]
  have "doc s = attach ''publishers''
                         (publisher_node (pv (reported_version reg) \<ge> pv ''0.1.8'') s1 h)
                         (attach ''properties'' (property_node h) (doc s))"
    by (simp add: load_doc [OF load])
  from arg_cong [OF this, of "section_children ''properties''"]
  have "section_children ''properties'' (doc s)
          = section_children ''properties'' (doc s) @ [property_node h]"
    by (simp only: section_children_both)
  then show False by simp
qed

text \<open>
  Claim C8, as amended. \<^verbatim>\<open>gen_xml\<close> returns with the instance, the document and the
  trace unchanged when the mapping is absent, when it is empty, and when its
  \<^verbatim>\<open>enabled\<close> is false. For a mapping with at least one key and without \<^verbatim>\<open>enabled\<close>,
  enabled defaults to true and the translation proceeds: the result is that of the
  body of \<^verbatim>\<open>gen_xml\<close>, and it is never a plain return in the unchanged state.
\<close>

theorem gen_xml_guard:
  "gen_xml pv reg s None = (Returned, s) \<and>
   (is_empty h \<or> enabled h = Some False \<longrightarrow> gen_xml pv reg s (Some h) = (Returned, s)) \<and>
   (\<not> is_empty h \<and> enabled h = None \<longrightarrow>
      get_enabled h \<and>
      gen_xml pv reg s (Some h) = gen_xml_body pv reg s h \<and>
      gen_xml pv reg s (Some h) \<noteq> (Returned, s))"
  using gen_xml_body_not_noop [of pv reg s h]
  by (auto simp: gen_xml_def get_enabled_def)

theorem gen_xml_guard_witness:
  "gen_xml release_key (example_registry ''0.1.9'') (init example_doc) None
     = (Returned, init example_doc) \<and>
   enabled disabled_hipchat = Some False \<and>
   gen_xml release_key (example_registry ''0.1.9'') (init example_doc) (Some disabled_hipchat)
     = (Returned, init example_doc) \<and>
   is_empty empty_hipchat \<and>
   gen_xml release_key (example_registry ''0.1.9'') (init example_doc) (Some empty_hipchat)
     = (Returned, init example_doc) \<and>
   enabled rooms_hipchat = None \<and>
   gen_xml release_key (example_registry ''0.1.9'') (init example_doc) (Some rooms_hipchat)
     = gen_xml_body release_key (example_registry ''0.1.9'') (init example_doc) rooms_hipchat \<and>
   gen_xml release_key (example_registry ''0.1.9'') (init example_doc) (Some rooms_hipchat)
     \<noteq> (Returned, init example_doc)"
proof -
  have d: "enabled disabled_hipchat = Some False" by (simp add: disabled_hipchat_def)
  have e: "is_empty empty_hipchat" by (simp add: empty_hipchat_def is_empty_def)
  have r: "enabled rooms_hipchat = None" by (simp add: rooms_hipchat_def)
  note g = gen_xml_guard [of release_key "example_registry ''0.1.9''" "init example_doc"]
  from g [of disabled_hipchat] g [of empty_hipchat] g [of rooms_hipchat]
    d e r rooms_hipchat_facts(1)
  show ?thesis by blast
qed

text \<open>
  Claim C8 as stated fails on the empty mapping: it is present and does not specify
  \<^verbatim>\<open>enabled\<close>, yet \<^verbatim>\<open>gen_xml\<close> returns without a step, where the body of the translator
  would have loaded the credentials and raised the format error.
\<close>

theorem empty_mapping_counterexample:
  "enabled empty_hipchat = None \<and>
   gen_xml release_key (example_registry ''0.1.9'') (init example_doc) (Some empty_hipchat)
     = (Returned, init example_doc) \<and>
   gen_xml_body release_key (example_registry ''0.1.9'') (init example_doc) empty_hipchat
     = (Raised format_error, loaded no_room_doc load_events)"
proof -
  have "room_text empty_hipchat = None" by (simp add: room_text_def empty_hipchat_def)
  from gen_xml_body_no_room [OF example_load this, of release_key "''0.1.9''" example_doc]
  have "gen_xml_body release_key (example_registry ''0.1.9'') (init example_doc) empty_hipchat
     = (Raised format_error, loaded no_room_doc load_events)"
    by (simp add: loaded_def attach_def append_child_def example_doc_def no_room_doc_def)
  then show ?thesis
    by (simp add: gen_xml_def is_empty_def empty_hipchat_def)
qed

subsection \<open>Translating twice\<close>

lemma publisher_node_same_instance:
  "authToken a = authToken b \<Longrightarrow> jenkinsUrl a = jenkinsUrl b \<Longrightarrow> sendAs a = sendAs b \<Longrightarrow>
   publisher_node n a h = publisher_node n b h"
  by (simp add: publisher_node_def url_fields_def)

text \<open>
  Claim C10. If \<^verbatim>\<open>gen_xml\<close> returns for an enabled mapping, a second call with the same
  mapping on the resulting state returns too. Each call attaches its two nodes: to the
  section already there, whose children stay, or to a new section when there is none.
  The two calls attach the same nodes \<open>P\<close> and \<open>H\<close>, so that each section ends with the
  node twice.
\<close>

theorem translating_twice_duplicates:
  assumes "\<not> is_empty h" and "get_enabled h"
    and "gen_xml pv reg s (Some h) = (Returned, s1)"
  shows "\<exists>P H s2.
           gen_xml pv reg s1 (Some h) = (Returned, s2) \<and>
           doc s1 = attach ''publishers'' H (attach ''properties'' P (doc s)) \<and>
           doc s2 = attach ''publishers'' H (attach ''properties'' P (doc s1)) \<and>
           section_children ''properties'' (doc s1) = section_children ''properties'' (doc s) @ [P] \<and>
           section_children ''publishers'' (doc s1) = section_children ''publishers'' (doc s) @ [H] \<and>
           section_children ''properties'' (doc s2)
             = section_children ''properties'' (doc s) @ [P, P] \<and>
           section_children ''publishers'' (doc s2)
             = section_children ''publishers'' (doc s) @ [H, H]"
proof -
  let ?new = "pv (reported_version reg) \<ge> pv ''0.1.8''"
  from gen_xml_Returned [OF assms(3,1,2)] obtain sl T where
    load: "load_global_data reg s = (Returned, sl)"
    and T: "room_text h = Some T"
    and sa: "?new \<longrightarrow> sendAs sl \<noteq> None"
    and s1: "s1 = sl\<lparr>doc := attach ''publishers'' (publisher_node ?new sl h)
                             (attach ''properties'' (property_node h) (doc s)),
                    trace := trace sl @ room_warning h @ [GetPluginInfo ''Jenkins HipChat Plugin'']\<rparr>"
    by auto
  let ?P = "property_node h"
  let ?H = "publisher_node ?new sl h"
  from load_Returned_token [OF load] obtain t where "authToken sl = Some t" "t \<noteq> []" by auto
  then have "authToken s1 = Some t" "t \<noteq> []" by (simp_all add: s1)
  then have load2: "load_global_data reg s1 = (Returned, s1)" by (rule load_cached)
  have sa2: "?new \<longrightarrow> sendAs s1 \<noteq> None" using sa by (simp add: s1)
  have H2: "publisher_node ?new s1 h = ?H"
    by (rule publisher_node_same_instance) (simp_all add: s1)
  define s2 where
    "s2 = s1\<lparr>doc := attach ''publishers'' ?H (attach ''properties'' ?P (doc s1)),
              trace := trace s1 @ room_warning h @ [GetPluginInfo ''Jenkins HipChat Plugin'']\<rparr>"
  have run2: "gen_xml pv reg s1 (Some h) = (Returned, s2)"
    using gen_xml_success [OF assms(1,2) load2 T sa2] by (simp add: H2 s2_def)
  have d1: "doc s1 = attach ''publishers'' ?H (attach ''properties'' ?P (doc s))"
    by (simp add: s1)
  have d2: "doc s2 = attach ''publishers'' ?H (attach ''properties'' ?P (doc s1))"
    by (simp add: s2_def)
  have "section_children ''properties'' (doc s1) = section_children ''properties'' (doc s) @ [?P]"
    "section_children ''publishers'' (doc s1) = section_children ''publishers'' (doc s) @ [?H]"
    "section_children ''properties'' (doc s2) = section_children ''properties'' (doc s) @ [?P, ?P]"
    "section_children ''publishers'' (doc s2) = section_children ''publishers'' (doc s) @ [?H, ?H]"
    unfolding d2 unfolding d1 by (simp_all add: section_children_both)
  with run2 d1 d2 show ?thesis by blast
qed

theorem translating_twice_duplicates_witness:
  "\<not> is_empty rooms_hipchat \<and> get_enabled rooms_hipchat \<and>
   gen_xml release_key (example_registry ''0.1.9'') (init example_doc) (Some rooms_hipchat)
     = (Returned, loaded rooms_doc_new (load_events @ [GetPluginInfo ''Jenkins HipChat Plugin''])) \<and>
   (\<exists>P H s2.
      gen_xml release_key (example_registry ''0.1.9'')
          (loaded rooms_doc_new (load_events @ [GetPluginInfo ''Jenkins HipChat Plugin'']))
          (Some rooms_hipchat)
        = (Returned, s2) \<and>
      section_children ''properties'' rooms_doc_new = [P] \<and>
      section_children ''publishers'' rooms_doc_new = [H] \<and>
      section_children ''properties'' (doc s2) = [P, P] \<and>
      section_children ''publishers'' (doc s2) = [H, H])"
proof -
  from translating_twice_duplicates [OF rooms_hipchat_facts(1,2) rooms_run_new]
  obtain P H s2 where
    "gen_xml release_key (example_registry ''0.1.9'')
          (loaded rooms_doc_new (load_events @ [GetPluginInfo ''Jenkins HipChat Plugin'']))
          (Some rooms_hipchat)
        = (Returned, s2)"
    "section_children ''properties'' rooms_doc_new = [P]"
    "section_children ''publishers'' rooms_doc_new = [H]"
    "section_children ''properties'' (doc s2) = [P, P]"
    "section_children ''publishers'' (doc s2) = [H, H]"
    by (auto simp: loaded_def init_def example_doc_def section_children_def)
  with rooms_hipchat_facts(1,2) rooms_run_new show ?thesis by blast
qed

end
